theory Spec2Isabelle
  imports Main
begin

section \<open>Python values\<close>

text \<open>
  The values that travel through the tool subsystem are what \<^verbatim>\<open>json.load\<close> produces and
  what the type \<^verbatim>\<open>Any\<close> of the configuration maps and of the tool arguments admits.
  \<^verbatim>\<open>None\<close> is \<open>JNull\<close>. Numbers are integers; no function of the subsystem computes
  with a number. A Python \<^verbatim>\<open>str\<close> is held as the bytes of its UTF-8 form, and a lone
  surrogate, which UTF-8 does not admit, as the three bytes its code point would take
  (\<^verbatim>\<open>"\ud800"\<close> is the bytes ED A0 80). The tests the subsystem makes on strings
  look for ASCII characters only, which are single bytes in this form.
\<close>

datatype json =
    JNull
  | JBool bool
  | JInt int
  | JStr string
  | JList "json list"
  | JDict "(string \<times> json) list"

text \<open>
  A Python \<^verbatim>\<open>dict\<close> with string keys is an association list in insertion order.
  \<open>dict_set\<close> is the assignment \<^verbatim>\<open>d[k] = v\<close>: an existing key keeps its place,
  a new key goes to the end. \<open>dict_get\<close> is \<^verbatim>\<open>d.get(k)\<close> and \<open>dict_contains\<close> is
  \<^verbatim>\<open>k in d\<close>.
\<close>

type_synonym 'v dict = "(string \<times> 'v) list"

definition dict_get :: "'v dict \<Rightarrow> string \<Rightarrow> 'v option" where
  "dict_get d k = map_of d k"

fun dict_set :: "'v dict \<Rightarrow> string \<Rightarrow> 'v \<Rightarrow> 'v dict" where
  "dict_set [] k v = [(k, v)]"
| "dict_set ((k', v') # d) k v =
     (if k' = k then (k, v) # d else (k', v') # dict_set d k v)"

definition dict_keys :: "'v dict \<Rightarrow> string list" where
  "dict_keys d = map fst d"

definition dict_contains :: "'v dict \<Rightarrow> string \<Rightarrow> bool" where
  "dict_contains d k = (k \<in> set (dict_keys d))"

section \<open>Exceptions\<close>

text \<open>
  An exception carries the root it derives from, its class name and the text \<^verbatim>\<open>str(e)\<close>.
  The handlers of the subsystem are all written \<^verbatim>\<open>except Exception\<close>: they catch the
  classes under \<^verbatim>\<open>Exception\<close> and let the others pass (\<^verbatim>\<open>SystemExit\<close>,
  \<^verbatim>\<open>KeyboardInterrupt\<close>, \<^verbatim>\<open>asyncio.CancelledError\<close>, which derive from
  \<^verbatim>\<open>BaseException\<close> only).
\<close>

datatype exn_root = Exception | BaseException

datatype exn = Exn (exn_root: exn_root) (exn_class: string) (exn_str: string)

definition caught_by_except_Exception :: "exn \<Rightarrow> bool" where
  "caught_by_except_Exception e = (exn_root e = Exception)"

section \<open>Tool registry (tool\_registry.py)\<close>

record ToolConfig =
  enabled :: bool
  description :: string
  config :: "json dict"

record MCPConfig =
  version :: string
  tools :: "ToolConfig dict"

subsection \<open>Validation of the document by the two pydantic models\<close>

definition ascii_lower :: "char \<Rightarrow> char" where
  "ascii_lower c =
     (let n = (of_char c :: nat) in if 65 \<le> n \<and> n \<le> 90 then char_of (n + 32) else c)"

definition ascii_upper :: "char \<Rightarrow> char" where
  "ascii_upper c =
     (let n = (of_char c :: nat) in if 97 \<le> n \<and> n \<le> 122 then char_of (n - 32) else c)"

text \<open>
  A field of type \<^verbatim>\<open>bool\<close> accepts a boolean, the integers 0 and 1, and the strings
  that pydantic reads as truth values, compared in lower case.
\<close>

definition pydantic_bool :: "json \<Rightarrow> bool option" where
  "pydantic_bool j =
     (case j of
        JBool b \<Rightarrow> Some b
      | JInt i \<Rightarrow> (if i = 0 then Some False else if i = 1 then Some True else None)
      | JStr s \<Rightarrow>
          (let l = map ascii_lower s in
           if l \<in> set [''1'', ''on'', ''t'', ''true'', ''y'', ''yes''] then Some True
           else if l \<in> set [''0'', ''off'', ''f'', ''false'', ''n'', ''no''] then Some False
           else None)
      | _ \<Rightarrow> None)"

definition ValidationError :: "string \<Rightarrow> exn" where
  "ValidationError loc = Exn Exception ''ValidationError'' loc"

text \<open>
  \<open>validate_ToolConfig\<close> is the construction of a \<^verbatim>\<open>ToolConfig\<close> from one value of
  the \<^verbatim>\<open>tools\<close> mapping: \<^verbatim>\<open>enabled\<close> and \<^verbatim>\<open>description\<close> are required,
  \<^verbatim>\<open>config\<close> defaults to the empty mapping, other keys are ignored. The text of the
  \<^verbatim>\<open>ValidationError\<close> is shortened to the place of the first offending field.
\<close>

definition validate_ToolConfig :: "json \<Rightarrow> exn + ToolConfig" where
  "validate_ToolConfig j =
     (case j of
        JDict d \<Rightarrow>
          (case dict_get d ''enabled'' of
             None \<Rightarrow> Inl (ValidationError ''enabled'')
           | Some e \<Rightarrow>
               (case pydantic_bool e of
                  None \<Rightarrow> Inl (ValidationError ''enabled'')
                | Some b \<Rightarrow>
                    (case dict_get d ''description'' of
                       Some (JStr s) \<Rightarrow>
                         (case dict_get d ''config'' of
                            None \<Rightarrow> Inr \<lparr>enabled = b, description = s, config = []\<rparr>
                          | Some (JDict c) \<Rightarrow>
                              Inr \<lparr>enabled = b, description = s, config = c\<rparr>
                          | Some _ \<Rightarrow> Inl (ValidationError ''config''))
                     | _ \<Rightarrow> Inl (ValidationError ''description''))))
      | _ \<Rightarrow> Inl (ValidationError ''tools''))"

text \<open>
  The \<^verbatim>\<open>tools\<close> mapping is validated entry by entry into a fresh dictionary; the
  first entry that does not validate fails the whole document.
\<close>

fun validate_tools :: "json dict \<Rightarrow> ToolConfig dict \<Rightarrow> exn + ToolConfig dict" where
  "validate_tools [] acc = Inr acc"
| "validate_tools ((name, j) # rest) acc =
     (case validate_ToolConfig j of
        Inl e \<Rightarrow> Inl e
      | Inr tc \<Rightarrow> validate_tools rest (dict_set acc name tc))"

text \<open>
  \<^verbatim>\<open>MCPConfig(**config_data)\<close>: the argument of \<^verbatim>\<open>**\<close> must be a mapping;
  \<^verbatim>\<open>version\<close> defaults to \<^verbatim>\<open>"1.0"\<close> and \<^verbatim>\<open>tools\<close> to the empty mapping.
\<close>

definition validate_MCPConfig :: "json \<Rightarrow> exn + MCPConfig" where
  "validate_MCPConfig j =
     (case j of
        JDict d \<Rightarrow>
          (case (case dict_get d ''version'' of
                   None \<Rightarrow> Some ''1.0''
                 | Some (JStr v) \<Rightarrow> Some v
                 | Some _ \<Rightarrow> None) of
             None \<Rightarrow> Inl (ValidationError ''version'')
           | Some v \<Rightarrow>
               (case dict_get d ''tools'' of
                  None \<Rightarrow> Inr \<lparr>version = v, tools = []\<rparr>
                | Some (JDict t) \<Rightarrow>
                    (case validate_tools t [] of
                       Inl e \<Rightarrow> Inl e
                     | Inr ts \<Rightarrow> Inr \<lparr>version = v, tools = ts\<rparr>)
                | Some _ \<Rightarrow> Inl (ValidationError ''tools'')))
      | _ \<Rightarrow> Inl (Exn Exception ''TypeError'' ''argument after ** must be a mapping''))"

subsection \<open>Loading the document\<close>

text \<open>
  The file at \<^verbatim>\<open>config_path\<close> is either absent or present; a present file gives what
  \<^verbatim>\<open>open\<close> and \<^verbatim>\<open>json.load\<close> give: an exception (\<^verbatim>\<open>JSONDecodeError\<close> for text
  that is not JSON, \<^verbatim>\<open>OSError\<close> for a file that cannot be read) or the parsed value.
\<close>

datatype source = Absent | Present "exn + json"

datatype level = DEBUG | INFO | WARNING | ERROR

text \<open>
  The records \<^verbatim>\<open>_load_config\<close> writes to the logger, with the values formatted into
  each message: "Config file not found ... Using empty config.", "Loaded MCP configuration with
  n tools", "Failed to parse MCP config JSON: e", "Failed to load MCP config: e".
\<close>

datatype registry_msg =
    Config_file_not_found
  | Loaded_configuration nat
  | Failed_to_parse exn
  | Failed_to_load exn

definition JSONDecodeError :: "string \<Rightarrow> exn" where
  "JSONDecodeError m = Exn Exception ''JSONDecodeError'' m"

text \<open>
  \<open>load_config\<close> is \<^verbatim>\<open>ToolRegistry._load_config\<close>. It returns the log records written
  and either the exception that leaves the function or the document. Both handlers re-raise.
\<close>

definition load_config :: "source \<Rightarrow> (level \<times> registry_msg) list \<times> (exn + MCPConfig)" where
  "load_config src =
     (case src of
        Absent \<Rightarrow> ([(WARNING, Config_file_not_found)], Inr \<lparr>version = ''1.0'', tools = []\<rparr>)
      | Present r \<Rightarrow>
          (case (case r of Inl e \<Rightarrow> Inl e | Inr config_data \<Rightarrow> validate_MCPConfig config_data) of
             Inr c \<Rightarrow> ([(INFO, Loaded_configuration (length (tools c)))], Inr c)
           | Inl e \<Rightarrow>
               (if exn_root e = Exception \<and> exn_class e = ''JSONDecodeError''
                  then [(ERROR, Failed_to_parse e)]
                else if caught_by_except_Exception e then [(ERROR, Failed_to_load e)]
                else [],
                Inl e)))"

subsection \<open>Queries\<close>

definition get_enabled_tools :: "MCPConfig \<Rightarrow> ToolConfig dict" where
  "get_enabled_tools c = filter (\<lambda>(name, tool). enabled tool) (tools c)"

definition get_tool_config :: "MCPConfig \<Rightarrow> string \<Rightarrow> ToolConfig option" where
  "get_tool_config c tool_name = dict_get (tools c) tool_name"

definition is_tool_enabled :: "MCPConfig \<Rightarrow> string \<Rightarrow> bool" where
  "is_tool_enabled c tool_name =
     (case dict_get (tools c) tool_name of Some tool \<Rightarrow> enabled tool | None \<Rightarrow> False)"

definition get_tool_description :: "MCPConfig \<Rightarrow> string \<Rightarrow> string option" where
  "get_tool_description c tool_name =
     (case dict_get (tools c) tool_name of Some tool \<Rightarrow> Some (description tool) | None \<Rightarrow> None)"

subsection \<open>Interpolation of environment variables\<close>

text \<open>
  The environment as \<^verbatim>\<open>os.getenv\<close> reads it. The lookup of a name first encodes the
  name for the platform and raises \<^verbatim>\<open>UnicodeEncodeError\<close> when that fails; otherwise it
  gives the value of the variable, or nothing when the variable is unset.
\<close>

type_synonym environ = "string \<Rightarrow> exn + string option"

definition startswith :: "string \<Rightarrow> string \<Rightarrow> bool" where
  "startswith s p = (take (length p) s = p)"

definition endswith :: "string \<Rightarrow> string \<Rightarrow> bool" where
  "endswith s p = (length p \<le> length s \<and> drop (length s - length p) s = p)"

text \<open>\<^verbatim>\<open>os.getenv(name, default)\<close>.\<close>

definition getenv :: "environ \<Rightarrow> string \<Rightarrow> string \<Rightarrow> exn + string" where
  "getenv env name dflt =
     (case env name of
        Inl e \<Rightarrow> Inl e
      | Inr None \<Rightarrow> Inr dflt
      | Inr (Some v) \<Rightarrow> Inr v)"

text \<open>
  One value of the loop body of \<^verbatim>\<open>interpolate_config\<close>: a string that starts with
  \<^verbatim>\<open>${\<close> and ends with \<^verbatim>\<open>}\<close> is looked up under the name \<^verbatim>\<open>value[2:-1]\<close>,
  with the string itself as default; every other value is kept.
\<close>

definition interpolate_value :: "environ \<Rightarrow> json \<Rightarrow> exn + json" where
  "interpolate_value env v =
     (case v of
        JStr s \<Rightarrow>
          (if startswith s ''${'' \<and> endswith s ''}''
           then (case getenv env (butlast (drop 2 s)) s of
                   Inl e \<Rightarrow> Inl e
                 | Inr x \<Rightarrow> Inr (JStr x))
           else Inr (JStr s))
      | _ \<Rightarrow> Inr v)"

text \<open>The loop over the items; an exception of a lookup leaves the loop and the function.\<close>

fun interpolate_loop :: "environ \<Rightarrow> json dict \<Rightarrow> json dict \<Rightarrow> exn + json dict" where
  "interpolate_loop env [] result = Inr result"
| "interpolate_loop env ((key, v) # items) result =
     (case interpolate_value env v of
        Inl e \<Rightarrow> Inl e
      | Inr v' \<Rightarrow> interpolate_loop env items (dict_set result key v'))"

definition interpolate_config :: "environ \<Rightarrow> json dict \<Rightarrow> exn + json dict" where
  "interpolate_config env tool_config = interpolate_loop env tool_config []"

text \<open>
  An environment of the usual kind, from the list of its variables. Names are encoded in
  UTF-8 with the handler \<^verbatim>\<open>surrogateescape\<close>: a surrogate code point cannot be encoded,
  except U+DC80 to U+DCFF, which stand for single bytes.
\<close>

fun has_lone_surrogate :: "string \<Rightarrow> bool" where
  "has_lone_surrogate (a # b # c # rest) =
     ((of_char a = (0xED :: nat) \<and> (0xA0 :: nat) \<le> of_char b
         \<and> of_char b \<noteq> (0xB2 :: nat) \<and> of_char b \<noteq> (0xB3 :: nat))
      \<or> has_lone_surrogate (b # c # rest))"
| "has_lone_surrogate _ = False"

definition UnicodeEncodeError :: "string \<Rightarrow> exn" where
  "UnicodeEncodeError m = Exn Exception ''UnicodeEncodeError'' m"

definition os_environ :: "(string \<times> string) list \<Rightarrow> environ" where
  "os_environ vars name =
     (if has_lone_surrogate name
      then Inl (UnicodeEncodeError ''surrogates not allowed'')
      else Inr (map_of vars name))"

text \<open>
  \<^verbatim>\<open>ToolRegistry.reload_config\<close>: the held document is assigned only after
  \<^verbatim>\<open>_load_config\<close> has returned.
\<close>

definition ToolRegistry_reload_config :: "source \<Rightarrow> MCPConfig \<Rightarrow> (exn + unit) \<times> MCPConfig" where
  "ToolRegistry_reload_config src held =
     (case snd (load_config src) of
        Inl e \<Rightarrow> (Inl e, held)
      | Inr c \<Rightarrow> (Inr (), c))"

section \<open>Tools (base\_tool.py, tools/current\_date.py)\<close>

text \<open>
  What \<^verbatim>\<open>datetime.utcnow()\<close> reads: the civil fields, and the two values the library
  derives from them with the calendar and the time zone of the process (the name of the
  weekday, the POSIX timestamp).
\<close>

record utcnow =
  year :: nat
  month :: nat
  day :: nat
  hour :: nat
  minute :: nat
  second :: nat
  microsecond :: nat
  weekday_name :: string
  posix_timestamp :: int

definition digit :: "nat \<Rightarrow> char" where
  "digit n = char_of (48 + n mod 10)"

definition pad2 :: "nat \<Rightarrow> string" where
  "pad2 n = [digit (n div 10), digit n]"

definition pad4 :: "nat \<Rightarrow> string" where
  "pad4 n = [digit (n div 1000), digit (n div 100), digit (n div 10), digit n]"

definition pad6 :: "nat \<Rightarrow> string" where
  "pad6 n = [digit (n div 100000), digit (n div 10000)] @ pad4 n"

definition month_name :: "nat \<Rightarrow> string" where
  "month_name m =
     [''January'', ''February'', ''March'', ''April'', ''May'', ''June'', ''July'',
      ''August'', ''September'', ''October'', ''November'', ''December''] ! ((m - 1) mod 12)"

text \<open>The four renderings \<^verbatim>\<open>CurrentDate.execute\<close> asks for.\<close>

definition strftime_date :: "utcnow \<Rightarrow> string" where
  "strftime_date now = pad4 (year now) @ ''-'' @ pad2 (month now) @ ''-'' @ pad2 (day now)"

definition strftime_time :: "utcnow \<Rightarrow> string" where
  "strftime_time now = pad2 (hour now) @ '':'' @ pad2 (minute now) @ '':'' @ pad2 (second now)"

definition strftime_readable :: "utcnow \<Rightarrow> string" where
  "strftime_readable now =
     weekday_name now @ '', '' @ month_name (month now) @ '' '' @ pad2 (day now) @ '', ''
       @ pad4 (year now)"

definition isoformat :: "utcnow \<Rightarrow> string" where
  "isoformat now =
     strftime_date now @ ''T'' @ strftime_time now
       @ (if microsecond now = 0 then [] else ''.'' @ pad6 (microsecond now))"

definition quoted :: "string \<Rightarrow> string" where
  "quoted s = [CHR 0x27] @ s @ [CHR 0x27]"

definition TypeError :: "string \<Rightarrow> exn" where
  "TypeError m = Exn Exception ''TypeError'' m"

text \<open>
  The behaviour of a tool instance is its \<^verbatim>\<open>execute\<close>: from the clock and the keyword
  arguments to an exception or a value. A tool class is its constructor, from the
  interpolated configuration to an exception or the behaviour of the new instance.
\<close>

type_synonym tool_execute = "utcnow \<Rightarrow> json dict \<Rightarrow> exn + json"

type_synonym tool_class = "json dict \<Rightarrow> exn + tool_execute"

text \<open>
  \<^verbatim>\<open>CurrentDate.execute(self, format="full")\<close>. A keyword other than \<^verbatim>\<open>format\<close> is
  refused at the call: \<^verbatim>\<open>self\<close> as a second value for the parameter, any other as
  unexpected.
\<close>

definition CurrentDate_execute :: tool_execute where
  "CurrentDate_execute now kwargs =
     (case filter (\<lambda>k. k \<noteq> ''format'') (dict_keys kwargs) of
        k # _ \<Rightarrow>
          Inl (TypeError
                 (if k = ''self''
                  then ''CurrentDate.execute() got multiple values for argument '' @ quoted k
                  else ''CurrentDate.execute() got an unexpected keyword argument '' @ quoted k))
      | [] \<Rightarrow>
          (let format = (case dict_get kwargs ''format'' of None \<Rightarrow> JStr ''full'' | Some f \<Rightarrow> f);
               result0 = [(''timestamp'', JStr (isoformat now)),
                          (''unix_timestamp'', JInt (posix_timestamp now))];
               result1 =
                 (if format \<in> set [JStr ''full'', JStr ''date_only'']
                  then dict_set (dict_set result0 ''date'' (JStr (strftime_date now)))
                         ''date_readable'' (JStr (strftime_readable now))
                  else result0);
               result2 =
                 (if format \<in> set [JStr ''full'', JStr ''time_only'']
                  then dict_set (dict_set result1 ''time'' (JStr (strftime_time now)))
                         ''time_with_tz'' (JStr (strftime_time now @ '' UTC''))
                  else result1)
           in Inr (JDict result2)))"

text \<open>\<^verbatim>\<open>BaseTool.__init__\<close> stores the configuration and does not fail.\<close>

definition CurrentDate :: tool_class where
  "CurrentDate cfg = Inr CurrentDate_execute"

section \<open>Tool loader (tool\_loader.py)\<close>

text \<open>
  The objects held in the loader's cache and in the manager's mapping. An instance has an
  identity, the configuration it was constructed with and its behaviour. \<open>Coroutine name\<close> is
  the coroutine object that the call \<^verbatim>\<open>self.load_tool(name)\<close> of an \<^verbatim>\<open>async def\<close>
  returns when it is not awaited: the body of \<^verbatim>\<open>load_tool\<close> has not run.
\<close>

datatype pyobj =
    Coroutine string
  | Instance nat "json dict" tool_execute

text \<open>Neither kind of object defines \<^verbatim>\<open>__bool__\<close> or \<^verbatim>\<open>__len__\<close>.\<close>

definition truthy :: "pyobj \<Rightarrow> bool" where
  "truthy obj = True"

definition TOOL_IMPLEMENTATIONS :: "string dict" where
  "TOOL_IMPLEMENTATIONS =
     [(''google_search'', ''app.mcp.tools.google_search''),
      (''sqlite'', ''app.mcp.tools.sqlite_tool''),
      (''current_date'', ''app.mcp.tools.current_date'')]"

fun split_on :: "char \<Rightarrow> string \<Rightarrow> string list" where
  "split_on sep [] = [[]]"
| "split_on sep (c # cs) =
     (if c = sep then [] # split_on sep cs
      else (case split_on sep cs of w # ws \<Rightarrow> (c # w) # ws | [] \<Rightarrow> [[c]]))"

definition capitalize :: "string \<Rightarrow> string" where
  "capitalize w = (case w of [] \<Rightarrow> [] | c # cs \<Rightarrow> ascii_upper c # map ascii_lower cs)"

definition to_pascal_case :: "string \<Rightarrow> string" where
  "to_pascal_case snake_str = concat (map capitalize (split_on (CHR ''_'') snake_str))"

text \<open>
  \<^verbatim>\<open>importlib.import_module\<close>: an exception or the module, seen as the classes it
  defines by name.
\<close>

type_synonym importer = "string \<Rightarrow> exn + (string \<Rightarrow> tool_class option)"

text \<open>
  The state of the three objects: the registry's document, the loader's
  \<^verbatim>\<open>_tool_cache\<close>, the manager's \<^verbatim>\<open>_tools\<close> (\<open>None\<close> until initialized).
  \<open>calls\<close> is a trace of the calls of \<^verbatim>\<open>interpolate_config\<close> and of tool constructors
  made so far, by tool name (the counter of a test double); \<open>next_id\<close> numbers the instances
  created, so that two constructions never give the same object.
\<close>

datatype call = Call_interpolate_config string | Call_constructor string

record manager =
  registry_config :: MCPConfig
  tool_cache :: "pyobj dict"
  tools_held :: "pyobj dict option"
  calls :: "call list"
  next_id :: nat

text \<open>
  How a run of the body of \<^verbatim>\<open>load_tool\<close> ends, one constructor for each
  \<^verbatim>\<open>return\<close> of the source (each writes its own message to the logger), and
  \<open>Raised\<close> for an exception that the handler \<^verbatim>\<open>except Exception\<close> does not catch.
\<close>

datatype load_result =
    From_cache pyobj
  | Not_enabled
  | Not_in_registry
  | No_implementation
  | Class_not_found
  | Loaded pyobj
  | Failed_to_load_tool exn
  | Raised exn

text \<open>The value the awaited call gives its caller.\<close>

definition returned :: "load_result \<Rightarrow> exn + pyobj option" where
  "returned r =
     (case r of
        From_cache t \<Rightarrow> Inr (Some t)
      | Loaded t \<Rightarrow> Inr (Some t)
      | Raised e \<Rightarrow> Inl e
      | _ \<Rightarrow> Inr None)"

definition load_tool_except :: "exn \<Rightarrow> load_result" where
  "load_tool_except e = (if caught_by_except_Exception e then Failed_to_load_tool e else Raised e)"

text \<open>The body of \<^verbatim>\<open>ToolLoader.load_tool\<close>, as it runs when the coroutine is awaited.\<close>

definition load_tool :: "importer \<Rightarrow> environ \<Rightarrow> string \<Rightarrow> manager \<Rightarrow> load_result \<times> manager" where
  "load_tool import_module env tool_name s =
     (case dict_get (tool_cache s) tool_name of
        Some t \<Rightarrow> (From_cache t, s)
      | None \<Rightarrow>
          if \<not> is_tool_enabled (registry_config s) tool_name then (Not_enabled, s)
          else
            (case get_tool_config (registry_config s) tool_name of
               None \<Rightarrow> (Not_in_registry, s)
             | Some tool_config \<Rightarrow>
                 (let s1 = s\<lparr>calls := calls s @ [Call_interpolate_config tool_name]\<rparr>
                  in case interpolate_config env (config tool_config) of
                       Inl e \<Rightarrow> (load_tool_except e, s1)
                     | Inr cfg \<Rightarrow>
                         (case dict_get TOOL_IMPLEMENTATIONS tool_name of
                            None \<Rightarrow> (No_implementation, s1)
                          | Some module_path \<Rightarrow>
                              if module_path = [] then (No_implementation, s1)
                              else
                                (case import_module module_path of
                                   Inl e \<Rightarrow> (load_tool_except e, s1)
                                 | Inr module \<Rightarrow>
                                     (case module (to_pascal_case tool_name) of
                                        None \<Rightarrow> (Class_not_found, s1)
                                      | Some tool_class \<Rightarrow>
                                          (let s2 = s1\<lparr>calls :=
                                                        calls s1 @ [Call_constructor tool_name]\<rparr>
                                           in case tool_class cfg of
                                                Inl e \<Rightarrow> (load_tool_except e, s2)
                                              | Inr ex \<Rightarrow>
                                                  (let tool_instance =
                                                         Instance (next_id s2) cfg ex
                                                   in (Loaded tool_instance,
                                                       s2\<lparr>tool_cache :=
                                                             dict_set (tool_cache s2) tool_name
                                                               tool_instance,
                                                           next_id := Suc (next_id s2)\<rparr>)))))))))"

text \<open>
  \<^verbatim>\<open>ToolLoader.load_all_tools\<close> is a plain \<^verbatim>\<open>def\<close>: its call
  \<^verbatim>\<open>self.load_tool(tool_name)\<close> is not awaited, so \<^verbatim>\<open>tool\<close> is the coroutine
  object, which is truthy, and is what the mapping receives. Nothing of the state changes.
\<close>

definition load_all_tools :: "manager \<Rightarrow> pyobj dict" where
  "load_all_tools s =
     fold (\<lambda>tool_name tools.
             let tool = Coroutine tool_name
             in if truthy tool then dict_set tools tool_name tool else tools)
          (dict_keys (get_enabled_tools (registry_config s))) []"

definition clear_cache :: "manager \<Rightarrow> manager" where
  "clear_cache s = s\<lparr>tool_cache := []\<rparr>"

section \<open>Tool manager (tool\_manager.py)\<close>

record ToolResult =
  success :: bool
  data :: json
  error :: "string option"

text \<open>
  \<^verbatim>\<open>ToolManager.__init__\<close> constructs the registry, which loads the document, and the
  loader with an empty cache.
\<close>

definition ToolManager_init :: "source \<Rightarrow> exn + manager" where
  "ToolManager_init src =
     (case snd (load_config src) of
        Inl e \<Rightarrow> Inl e
      | Inr c \<Rightarrow>
          Inr \<lparr>registry_config = c, tool_cache = [], tools_held = None, calls = [], next_id = 0\<rparr>)"

definition initialize :: "manager \<Rightarrow> manager" where
  "initialize s = s\<lparr>tools_held := Some (load_all_tools s)\<rparr>"

text \<open>\<^verbatim>\<open>tool.execute(**kwargs)\<close> on an object of the mapping.\<close>

definition AttributeError :: "string \<Rightarrow> exn" where
  "AttributeError m = Exn Exception ''AttributeError'' m"

definition call_execute :: "pyobj \<Rightarrow> utcnow \<Rightarrow> json dict \<Rightarrow> exn + json" where
  "call_execute tool now kwargs =
     (case tool of
        Coroutine _ \<Rightarrow>
          Inl (AttributeError (quoted ''coroutine'' @ '' object has no attribute ''
                 @ quoted ''execute''))
      | Instance _ _ ex \<Rightarrow> ex now kwargs)"

definition execute_tool_except :: "exn \<Rightarrow> exn + ToolResult" where
  "execute_tool_except e =
     (if caught_by_except_Exception e
      then Inr \<lparr>success = False, data = JNull, error = Some (exn_str e)\<rparr>
      else Inl e)"

definition not_found_message :: "string \<Rightarrow> string" where
  "not_found_message tool_name = ''Tool '' @ quoted tool_name @ '' not found or not enabled''"

text \<open>
  The signature is \<^verbatim>\<open>execute_tool(self, tool_name, **kwargs)\<close> and the arguments map is
  passed as \<^verbatim>\<open>**kwargs\<close>. A key of the map that names the parameter \<^verbatim>\<open>self\<close> or
  \<^verbatim>\<open>tool_name\<close> is a second value for it: \<open>keyword_clash\<close> lists these keys.
\<close>

definition keyword_clash :: "json dict \<Rightarrow> string list" where
  "keyword_clash kwargs = filter (\<lambda>k. k = ''self'' \<or> k = ''tool_name'') (dict_keys kwargs)"

text \<open>
  \<^verbatim>\<open>ToolManager.execute_tool\<close>. With a clashing key Python raises \<^verbatim>\<open>TypeError\<close>
  at the call, before the body and its \<^verbatim>\<open>try\<close> are entered. Otherwise the whole body
  stands in the \<^verbatim>\<open>try\<close>; the two branches that the source cannot reach after
  \<^verbatim>\<open>initialize\<close> (a mapping that is still \<^verbatim>\<open>None\<close>, a key that is in the mapping
  and has no value) raise what Python would raise.
\<close>

definition execute_tool ::
  "string \<Rightarrow> json dict \<Rightarrow> utcnow \<Rightarrow> manager \<Rightarrow> (exn + ToolResult) \<times> manager" where
  "execute_tool tool_name kwargs now s =
     (case keyword_clash kwargs of
        k # _ \<Rightarrow>
          (Inl (TypeError (''ToolManager.execute_tool() got multiple values for argument ''
                  @ quoted k)), s)
      | [] \<Rightarrow>
          (let s1 = (case tools_held s of None \<Rightarrow> initialize s | Some _ \<Rightarrow> s)
           in case tools_held s1 of
                None \<Rightarrow>
                  (execute_tool_except (TypeError ''argument of type NoneType is not iterable''),
                   s1)
              | Some ts \<Rightarrow>
                  if \<not> dict_contains ts tool_name
                  then (Inr \<lparr>success = False, data = JNull,
                             error = Some (not_found_message tool_name)\<rparr>, s1)
                  else
                    (case dict_get ts tool_name of
                       None \<Rightarrow>
                         (execute_tool_except (Exn Exception ''KeyError'' (quoted tool_name)), s1)
                     | Some tool \<Rightarrow>
                         (case call_execute tool now kwargs of
                            Inr result \<Rightarrow>
                              (Inr \<lparr>success = True, data = result, error = None\<rparr>, s1)
                          | Inl e \<Rightarrow> (execute_tool_except e, s1)))))"

text \<open>
  \<^verbatim>\<open>ToolManager.reload_config\<close>: an exception of the registry's reload leaves before
  the cache is cleared and the mapping dropped.
\<close>

definition ToolManager_reload_config :: "source \<Rightarrow> manager \<Rightarrow> (exn + unit) \<times> manager" where
  "ToolManager_reload_config src s =
     (case ToolRegistry_reload_config src (registry_config s) of
        (Inl e, c) \<Rightarrow> (Inl e, s\<lparr>registry_config := c\<rparr>)
      | (Inr _, c) \<Rightarrow> (Inr (), (clear_cache (s\<lparr>registry_config := c\<rparr>))\<lparr>tools_held := None\<rparr>))"

subsection \<open>Runs of the subsystem\<close>

text \<open>
  The calls a client can make on a constructed manager and on the registry and the loader
  it holds, each with what the world supplies to it (the importer and the environment for an
  awaited \<^verbatim>\<open>load_tool\<close>, the clock for an execution, the file for a reload), and the state
  after a sequence of them. \<open>Op_reload_config\<close> is the manager's
  \<^verbatim>\<open>reload_config\<close>; \<open>Op_registry_reload_config\<close> is \<^verbatim>\<open>reload_config\<close> called
  on the registry itself, which replaces the document and touches neither the cache nor the
  held mapping.
\<close>

datatype op =
    Op_initialize
  | Op_execute_tool string "json dict" utcnow
  | Op_load_tool importer environ string
  | Op_reload_config source
  | Op_clear_cache
  | Op_registry_reload_config source

fun step :: "op \<Rightarrow> manager \<Rightarrow> manager" where
  "step Op_initialize s = initialize s"
| "step (Op_execute_tool tool_name kwargs now) s = snd (execute_tool tool_name kwargs now s)"
| "step (Op_load_tool import_module env tool_name) s = snd (load_tool import_module env tool_name s)"
| "step (Op_reload_config src) s = snd (ToolManager_reload_config src s)"
| "step Op_clear_cache s = clear_cache s"
| "step (Op_registry_reload_config src) s =
     s\<lparr>registry_config := snd (ToolRegistry_reload_config src (registry_config s))\<rparr>"

definition run :: "op list \<Rightarrow> manager \<Rightarrow> manager" where
  "run ops s = fold step ops s"

text \<open>The sequences in which the document is replaced through the manager only.\<close>

fun is_registry_reload :: "op \<Rightarrow> bool" where
  "is_registry_reload (Op_registry_reload_config src) = True"
| "is_registry_reload _ = False"

definition no_direct_reload :: "op list \<Rightarrow> bool" where
  "no_direct_reload ops = list_all (\<lambda>op. \<not> is_registry_reload op) ops"

section \<open>Notions used to state the properties\<close>

text \<open>
  The string \<^verbatim>\<open>${NAME}\<close> of the configuration document, for the name of an environment
  variable.
\<close>

definition placeholder :: "string \<Rightarrow> string" where
  "placeholder name = ''${'' @ name @ ''}''"

text \<open>
  The cache and the held mapping name enabled tools of the document only, and the document
  has one entry for each name.
\<close>

definition consistent :: "manager \<Rightarrow> bool" where
  "consistent s =
     (distinct (dict_keys (tools (registry_config s)))
      \<and> list_all (is_tool_enabled (registry_config s)) (dict_keys (tool_cache s))
      \<and> (case tools_held s of
            None \<Rightarrow> True
          | Some m \<Rightarrow> list_all (is_tool_enabled (registry_config s)) (dict_keys m)))"

subsection \<open>Documents, importers and test doubles\<close>

text \<open>The document of the end-to-end property, and the manager constructed from it.\<close>

definition current_date_document :: source where
  "current_date_document =
     Present (Inr (JDict [(''tools'', JDict [(''current_date'',
       JDict [(''enabled'', JBool True), (''description'', JStr ''d''), (''config'', JDict [])])])]))"

definition current_date_manager :: manager where
  "current_date_manager =
     \<lparr>registry_config =
        \<lparr>version = ''1.0'',
         tools = [(''current_date'', \<lparr>enabled = True, description = ''d'', config = []\<rparr>)]\<rparr>,
      tool_cache = [], tools_held = None, calls = [], next_id = 0\<rparr>"

text \<open>An importer that finds the module of \<^verbatim>\<open>CurrentDate\<close> and no other.\<close>

definition current_date_importer :: importer where
  "current_date_importer module_path =
     (if module_path = ''app.mcp.tools.current_date''
      then Inr (\<lambda>class_name. if class_name = ''CurrentDate'' then Some CurrentDate else None)
      else Inl (Exn Exception ''ModuleNotFoundError'' module_path))"

definition no_environ :: environ where
  "no_environ = os_environ []"

text \<open>The name \<^verbatim>\<open>"\ud800"\<close>, one lone surrogate.\<close>

definition lone_surrogate :: string where
  "lone_surrogate = [CHR 0xED, CHR 0xA0, CHR 0x80]"

definition clock0 :: utcnow where
  "clock0 = \<lparr>year = 2024, month = 3, day = 7, hour = 1, minute = 2, second = 3,
      microsecond = 0, weekday_name = ''Thursday'', posix_timestamp = 1709773323\<rparr>"

text \<open>A document with one enabled and one disabled tool, and the manager constructed from it.\<close>

definition two_tool_document :: source where
  "two_tool_document =
     Present (Inr (JDict
       [(''version'', JStr ''1.0''),
        (''tools'', JDict
          [(''current_date'',
            JDict [(''enabled'', JBool True), (''description'', JStr ''d''), (''config'', JDict [])]),
           (''google_search'',
            JDict [(''enabled'', JBool False), (''description'', JStr ''search''),
                   (''config'', JDict [(''api_key'', JStr ''${GOOGLE_API_KEY}'')])])])]))"

definition two_tool_manager :: manager where
  "two_tool_manager =
     \<lparr>registry_config =
        \<lparr>version = ''1.0'',
         tools =
           [(''current_date'', \<lparr>enabled = True, description = ''d'', config = []\<rparr>),
            (''google_search'',
             \<lparr>enabled = False, description = ''search'',
              config = [(''api_key'', JStr ''${GOOGLE_API_KEY}'')]\<rparr>)]\<rparr>,
      tool_cache = [], tools_held = None, calls = [], next_id = 0\<rparr>"

definition witness_ops :: "op list" where
  "witness_ops =
     [Op_load_tool current_date_importer no_environ ''current_date'', Op_initialize,
      Op_execute_tool ''current_date'' [] clock0]"

text \<open>
  Two runs in which the registry is reloaded directly after the tool has been loaded and
  the manager initialized: to a document that declares \<^verbatim>\<open>current_date\<close> disabled, and
  to an absent file.
\<close>

definition disabled_document :: source where
  "disabled_document =
     Present (Inr (JDict [(''tools'', JDict [(''current_date'',
       JDict [(''enabled'', JBool False), (''description'', JStr ''d''),
              (''config'', JDict [])])])]))"

definition stale_disabled_ops :: "op list" where
  "stale_disabled_ops =
     [Op_load_tool current_date_importer no_environ ''current_date'', Op_initialize,
      Op_registry_reload_config disabled_document]"

definition stale_unknown_ops :: "op list" where
  "stale_unknown_ops =
     [Op_load_tool current_date_importer no_environ ''current_date'',
      Op_registry_reload_config Absent]"

text \<open>
  A manager whose document enables \<^verbatim>\<open>sqlite\<close>, and a module whose class
  \<^verbatim>\<open>Sqlite\<close> raises in its constructor.
\<close>

definition sqlite_manager :: manager where
  "sqlite_manager =
     \<lparr>registry_config =
        \<lparr>version = ''1.0'',
         tools = [(''sqlite'', \<lparr>enabled = True, description = ''db'', config = []\<rparr>)]\<rparr>,
      tool_cache = [], tools_held = None, calls = [], next_id = 0\<rparr>"

definition raising_class :: tool_class where
  "raising_class cfg = Inl (Exn Exception ''OperationalError'' ''unable to open database file'')"

definition raising_importer :: importer where
  "raising_importer module_path =
     Inr (\<lambda>class_name. if class_name = ''Sqlite'' then Some raising_class else None)"

text \<open>
  Three tool doubles: one whose \<^verbatim>\<open>execute\<close> raises a \<^verbatim>\<open>ValueError\<close>, one that
  returns 42, and one whose \<^verbatim>\<open>execute\<close> ends with \<^verbatim>\<open>asyncio.CancelledError\<close>,
  which is not an \<^verbatim>\<open>Exception\<close>. The manager holds an instance of each.
\<close>

definition raising_execute :: tool_execute where
  "raising_execute now kwargs = Inl (Exn Exception ''ValueError'' ''boom'')"

definition returning_execute :: tool_execute where
  "returning_execute now kwargs = Inr (JInt 42)"

definition cancelled_execute :: tool_execute where
  "cancelled_execute now kwargs = Inl (Exn BaseException ''CancelledError'' [])"

definition doubles_manager :: manager where
  "doubles_manager =
     \<lparr>registry_config = \<lparr>version = ''1.0'', tools = []\<rparr>,
      tool_cache = [],
      tools_held = Some [(''raises'', Instance 0 [] raising_execute),
                         (''returns'', Instance 1 [] returning_execute),
                         (''cancelled'', Instance 2 [] cancelled_execute)],
      calls = [], next_id = 3\<rparr>"

section \<open>Dictionaries\<close>

lemma dict_get_Nil: "dict_get [] k = None"
  by (simp add: dict_get_def)

lemma dict_keys_simps:
  "dict_keys [] = []" "dict_keys ((k, v) # d) = k # dict_keys d"
  by (simp_all add: dict_keys_def)

lemma dict_get_dict_set:
  "dict_get (dict_set d k v) k' = (if k' = k then Some v else dict_get d k')"
  by (induction d) (auto simp: dict_get_def)

lemma dict_keys_dict_set:
  "dict_keys (dict_set d k v) = (if k \<in> set (dict_keys d) then dict_keys d else dict_keys d @ [k])"
  by (induction d) (force simp: dict_keys_def)+

lemma set_dict_keys_dict_set:
  "set (dict_keys (dict_set d k v)) = insert k (set (dict_keys d))"
  by (auto simp: dict_keys_dict_set)

lemma distinct_dict_set:
  "distinct (dict_keys d) \<Longrightarrow> distinct (dict_keys (dict_set d k v))"
  by (simp add: dict_keys_dict_set)

lemma dict_contains_iff: "dict_contains d k \<longleftrightarrow> dict_get d k \<noteq> None"
  by (induction d) (auto simp: dict_contains_def dict_keys_def dict_get_def)

lemma dict_get_None_iff: "dict_get d k = None \<longleftrightarrow> k \<notin> set (dict_keys d)"
  by (simp add: dict_get_def dict_keys_def map_of_eq_None_iff)

lemmas registry_defs =
  load_config_def validate_MCPConfig_def validate_ToolConfig_def pydantic_bool_def
  dict_get_def dict_keys_def dict_contains_def get_enabled_tools_def is_tool_enabled_def
  get_tool_config_def

section \<open>Interpolation\<close>

text \<open>The test of the source, a prefix and a suffix, is the shape \<^verbatim>\<open>${NAME}\<close>.\<close>

lemma placeholder_shape:
  "startswith s ''${'' \<and> endswith s ''}'' \<longleftrightarrow> (\<exists>name. s = ''${'' @ name @ ''}'')"
proof
  assume a: "startswith s ''${'' \<and> endswith s ''}''"
  then have t: "take 2 s = ''${''" and l: "1 \<le> length s" and e: "drop (length s - 1) s = ''}''"
    by (simp_all add: startswith_def endswith_def eval_nat_numeral)
  from t have s2: "s = ''${'' @ drop 2 s"
    by (metis append_take_drop_id)
  from l e have lst: "last s = CHR ''}''"
    by (metis One_nat_def last_drop last_snoc append_Nil diff_less length_greater_0_conv
        less_numeral_extra(1) list.size(3) not_one_le_zero)
  have ne: "drop 2 s \<noteq> []"
  proof
    assume "drop 2 s = []"
    with s2 have "s = ''${''" by simp
    with lst show False by simp
  qed
  with s2 lst have "last (drop 2 s) = CHR ''}''"
    by (metis last_appendR)
  with ne have "drop 2 s = butlast (drop 2 s) @ ''}''"
    by (metis append_butlast_last_id)
  with s2 have "s = ''${'' @ butlast (drop 2 s) @ ''}''" by simp
  then show "\<exists>name. s = ''${'' @ name @ ''}''" ..
next
  assume "\<exists>name. s = ''${'' @ name @ ''}''"
  then show "startswith s ''${'' \<and> endswith s ''}''"
    by (auto simp: startswith_def endswith_def)
qed

lemma interpolate_value_placeholder:
  "interpolate_value env (JStr (placeholder name)) =
     (case env name of
        Inl e \<Rightarrow> Inl e
      | Inr None \<Rightarrow> Inr (JStr (placeholder name))
      | Inr (Some x) \<Rightarrow> Inr (JStr x))"
  by (simp add: placeholder_def interpolate_value_def startswith_def endswith_def getenv_def
      butlast_append split: sum.splits option.splits)

lemma interpolate_value_other:
  "(\<nexists>name. v = JStr (placeholder name)) \<Longrightarrow> interpolate_value env v = Inr v"
  using placeholder_shape unfolding placeholder_def
  by (auto simp: interpolate_value_def split: json.splits)

lemma placeholder_inj: "placeholder a = placeholder b \<longleftrightarrow> a = b"
  by (simp add: placeholder_def)

lemma interpolate_value_fails:
  "interpolate_value env v = Inl e \<longleftrightarrow> (\<exists>name. v = JStr (placeholder name) \<and> env name = Inl e)"
proof (cases "\<exists>name. v = JStr (placeholder name)")
  case True
  then obtain name where v: "v = JStr (placeholder name)" ..
  show ?thesis
    unfolding v interpolate_value_placeholder
    by (auto simp: placeholder_inj split: sum.splits option.splits)
next
  case False
  then show ?thesis by (auto simp: interpolate_value_other)
qed

text \<open>
  The loop of \<^verbatim>\<open>interpolate_config\<close> over the items of a dictionary. When no value
  fails, each key ends with the interpolation of its own value, after the keys the result
  already had; otherwise the loop ends with the exception of a value that fails.
\<close>

lemma interpolate_loop_succeeds:
  "distinct (map fst items) \<Longrightarrow> \<forall>kv \<in> set items. \<not> isl (interpolate_value env (snd kv)) \<Longrightarrow>
   \<exists>r. interpolate_loop env items result = Inr r
     \<and> (\<forall>k. dict_get r k =
           (case map_of items k of
              Some v \<Rightarrow> Some (projr (interpolate_value env v))
            | None \<Rightarrow> dict_get result k))
     \<and> (set (map fst items) \<inter> set (dict_keys result) = {} \<longrightarrow>
          dict_keys r = dict_keys result @ map fst items)"
proof (induction items arbitrary: result)
  case Nil
  then show ?case by simp
next
  case (Cons kv items)
  obtain key v where kv: "kv = (key, v)" by (cases kv)
  from Cons.prems(2) kv obtain v' where v': "interpolate_value env v = Inr v'"
    by (cases "interpolate_value env v") auto
  from Cons.prems kv have d: "distinct (map fst items)" and nk: "key \<notin> fst ` set items"
    and ok: "\<forall>kv \<in> set items. \<not> isl (interpolate_value env (snd kv))"
    by auto
  from nk have none: "map_of items key = None"
    by (simp add: map_of_eq_None_iff)
  from Cons.IH [OF d ok, of "dict_set result key v'"] obtain r where
    r: "interpolate_loop env items (dict_set result key v') = Inr r"
    and g: "\<And>k. dict_get r k =
           (case map_of items k of
              Some v \<Rightarrow> Some (projr (interpolate_value env v))
            | None \<Rightarrow> dict_get (dict_set result key v') k)"
    and ks: "set (map fst items) \<inter> set (dict_keys (dict_set result key v')) = {} \<Longrightarrow>
          dict_keys r = dict_keys (dict_set result key v') @ map fst items"
    by blast
  have 1: "interpolate_loop env (kv # items) result = Inr r"
    by (simp add: kv v' r)
  have 2: "dict_get r k =
           (case map_of (kv # items) k of
              Some v \<Rightarrow> Some (projr (interpolate_value env v))
            | None \<Rightarrow> dict_get result k)" for k
    using none by (auto simp: g kv v' dict_get_dict_set split: option.splits)
  have 3: "dict_keys r = dict_keys result @ map fst (kv # items)"
    if "set (map fst (kv # items)) \<inter> set (dict_keys result) = {}"
  proof -
    from that kv have a: "key \<notin> set (dict_keys result)"
      and b: "set (map fst items) \<inter> set (dict_keys result) = {}"
      by auto
    from a have "dict_keys (dict_set result key v') = dict_keys result @ [key]"
      by (simp add: dict_keys_dict_set)
    moreover from b nk have "set (map fst items) \<inter> set (dict_keys result @ [key]) = {}"
      by auto
    ultimately show ?thesis using ks kv by simp
  qed
  from 1 2 3 show ?case by blast
qed

lemma interpolate_loop_fails:
  "\<exists>kv \<in> set items. isl (interpolate_value env (snd kv)) \<Longrightarrow>
   \<exists>kv \<in> set items. \<exists>e. interpolate_value env (snd kv) = Inl e
      \<and> interpolate_loop env items result = Inl e"
proof (induction items arbitrary: result)
  case Nil
  then show ?case by simp
next
  case (Cons kv items)
  obtain key v where kv: "kv = (key, v)" by (cases kv)
  show ?case
  proof (cases "interpolate_value env v")
    case (Inl e)
    then show ?thesis by (auto simp: kv)
  next
    case (Inr v')
    with Cons.prems kv have "\<exists>kv \<in> set items. isl (interpolate_value env (snd kv))"
      by auto
    from Cons.IH [OF this, of "dict_set result key v'"] Inr show ?thesis
      by (auto simp: kv)
  qed
qed

lemma dict_get_Some_iff:
  "distinct (dict_keys d) \<Longrightarrow> dict_get d k = Some v \<longleftrightarrow> (k, v) \<in> set d"
  by (simp add: dict_get_def dict_keys_def)

lemma dict_get_member:
  "distinct (dict_keys d) \<Longrightarrow> kv \<in> set d \<Longrightarrow> dict_get d (fst kv) = Some (snd kv)"
  by (simp add: dict_get_def dict_keys_def)

text \<open>
  Claim C3, as the source has it. For every configuration map and every environment: when
  the lookup of every name that a placeholder of the map holds succeeds,
  \<^verbatim>\<open>interpolate_config\<close> returns a map with the keys of the given one in their order, in
  which a value that is the string \<^verbatim>\<open>${NAME}\<close> has become the value of the environment
  variable \<^verbatim>\<open>NAME\<close>, or is the literal placeholder still when the variable is unset, and
  every other value, a string of another shape or a value that is not a string (a nested list
  or mapping included, whatever it contains), is unchanged; when the lookup of such a name
  raises, \<^verbatim>\<open>interpolate_config\<close> returns no map and ends with the exception of a lookup.
  \<^verbatim>\<open>NAME\<close> is all the text between the leading \<^verbatim>\<open>${\<close> and the final \<^verbatim>\<open>}\<close>,
  as the source takes it.
\<close>

theorem interpolate_config_shallow:
  assumes "distinct (dict_keys tool_config)"
  shows "((\<forall>key name. dict_get tool_config key = Some (JStr (placeholder name)) \<longrightarrow>
             \<not> isl (env name)) \<longrightarrow>
          (\<exists>result. interpolate_config env tool_config = Inr result
             \<and> dict_keys result = dict_keys tool_config
             \<and> (\<forall>key name. dict_get tool_config key = Some (JStr (placeholder name)) \<longrightarrow>
                   dict_get result key =
                     Some (JStr (case env name of Inr (Some x) \<Rightarrow> x | _ \<Rightarrow> placeholder name)))
             \<and> (\<forall>key v. dict_get tool_config key = Some v
                     \<and> (\<nexists>name. v = JStr (placeholder name)) \<longrightarrow>
                   dict_get result key = Some v)
             \<and> (\<forall>key. dict_get tool_config key = None \<longrightarrow> dict_get result key = None)))
    \<and> ((\<exists>key name. dict_get tool_config key = Some (JStr (placeholder name)) \<and> isl (env name)) \<longrightarrow>
          (\<exists>key name e. dict_get tool_config key = Some (JStr (placeholder name))
             \<and> env name = Inl e \<and> interpolate_config env tool_config = Inl e))"
proof (intro conjI impI)
  from assms have d: "distinct (map fst tool_config)" by (simp add: dict_keys_def)
  assume ok: "\<forall>key name. dict_get tool_config key = Some (JStr (placeholder name)) \<longrightarrow>
             \<not> isl (env name)"
  have "\<not> isl (interpolate_value env (snd kv))" if "kv \<in> set tool_config" for kv
  proof
    assume "isl (interpolate_value env (snd kv))"
    then obtain e where "interpolate_value env (snd kv) = Inl e"
      by (cases "interpolate_value env (snd kv)") auto
    then obtain name where n: "snd kv = JStr (placeholder name)" and f: "env name = Inl e"
      by (auto simp: interpolate_value_fails)
    from dict_get_member [OF assms that] n
    have "dict_get tool_config (fst kv) = Some (JStr (placeholder name))"
      by simp
    with ok have "\<not> isl (env name)" by blast
    with f show False by simp
  qed
  then have "\<forall>kv \<in> set tool_config. \<not> isl (interpolate_value env (snd kv))" by blast
  from interpolate_loop_succeeds [OF d this, of "[]"] obtain r where
    r0: "interpolate_loop env tool_config [] = Inr r"
    and g0: "\<forall>k. dict_get r k =
           (case map_of tool_config k of
              Some v \<Rightarrow> Some (projr (interpolate_value env v))
            | None \<Rightarrow> dict_get ([] :: json dict) k)"
    and ks0: "set (map fst tool_config) \<inter> set (dict_keys ([] :: json dict)) = {} \<longrightarrow>
          dict_keys r = dict_keys ([] :: json dict) @ map fst tool_config"
    by blast
  from r0 have r: "interpolate_config env tool_config = Inr r"
    by (simp add: interpolate_config_def)
  have g: "dict_get r k =
           (case dict_get tool_config k of
              Some v \<Rightarrow> Some (projr (interpolate_value env v))
            | None \<Rightarrow> None)" for k
    using g0 [rule_format, of k] by (simp add: dict_get_def split: option.splits)
  from ks0 have ks: "dict_keys r = dict_keys tool_config"
    by (simp add: dict_keys_def)
  have p: "dict_get r key = Some (JStr (case env name of Inr (Some x) \<Rightarrow> x | _ \<Rightarrow> placeholder name))"
    if "dict_get tool_config key = Some (JStr (placeholder name))" for key name
  proof -
    from ok that have "\<not> isl (env name)" by blast
    with that show ?thesis
      by (auto simp: g interpolate_value_placeholder split: sum.splits option.splits)
  qed
  have q: "dict_get r key = Some v"
    if "dict_get tool_config key = Some v" and "\<nexists>name. v = JStr (placeholder name)" for key v
    using that by (simp add: g interpolate_value_other)
  have n: "dict_get r key = None" if "dict_get tool_config key = None" for key
    using that by (simp add: g)
  from r ks p q n
  show "\<exists>result. interpolate_config env tool_config = Inr result
             \<and> dict_keys result = dict_keys tool_config
             \<and> (\<forall>key name. dict_get tool_config key = Some (JStr (placeholder name)) \<longrightarrow>
                   dict_get result key =
                     Some (JStr (case env name of Inr (Some x) \<Rightarrow> x | _ \<Rightarrow> placeholder name)))
             \<and> (\<forall>key v. dict_get tool_config key = Some v
                     \<and> (\<nexists>name. v = JStr (placeholder name)) \<longrightarrow>
                   dict_get result key = Some v)
             \<and> (\<forall>key. dict_get tool_config key = None \<longrightarrow> dict_get result key = None)"
    by blast
next
  assume "\<exists>key name. dict_get tool_config key = Some (JStr (placeholder name)) \<and> isl (env name)"
  then obtain key name e where k: "dict_get tool_config key = Some (JStr (placeholder name))"
    and f: "env name = Inl e"
    by (metis isl_def)
  from k have m: "(key, JStr (placeholder name)) \<in> set tool_config"
    using dict_get_Some_iff [OF assms] by simp
  from f have "isl (interpolate_value env (JStr (placeholder name)))"
    by (simp add: interpolate_value_placeholder)
  with m have "\<exists>kv \<in> set tool_config. isl (interpolate_value env (snd kv))"
    by force
  from interpolate_loop_fails [OF this, of "[]"] obtain kv e' where
    kv: "kv \<in> set tool_config" and iv: "interpolate_value env (snd kv) = Inl e'"
    and l: "interpolate_config env tool_config = Inl e'"
    by (auto simp: interpolate_config_def)
  from iv obtain name' where n: "snd kv = JStr (placeholder name')" and f': "env name' = Inl e'"
    by (auto simp: interpolate_value_fails)
  from dict_get_member [OF assms kv] n
  have "dict_get tool_config (fst kv) = Some (JStr (placeholder name'))"
    by simp
  with f' l
  show "\<exists>key name e. dict_get tool_config key = Some (JStr (placeholder name))
             \<and> env name = Inl e \<and> interpolate_config env tool_config = Inl e"
    by blast
qed

lemma lone_surrogate_unencodable: "has_lone_surrogate lone_surrogate"
  by (simp add: lone_surrogate_def)

lemma ascii_names_encodable:
  "\<not> has_lone_surrogate ''MY_VAR''" "\<not> has_lone_surrogate ''UNSET''"
  by simp_all

theorem interpolate_config_shallow_witness:
  "distinct (dict_keys [(''key'', JStr ''${MY_VAR}''), (''other'', JStr ''${UNSET}''),
       (''nested'', JList [JStr ''${MY_VAR}''])])
   \<and> interpolate_config (os_environ [(''MY_VAR'', ''secret'')])
        [(''key'', JStr ''${MY_VAR}''), (''other'', JStr ''${UNSET}''),
         (''nested'', JList [JStr ''${MY_VAR}''])]
      = Inr [(''key'', JStr ''secret''), (''other'', JStr ''${UNSET}''),
         (''nested'', JList [JStr ''${MY_VAR}''])]
   \<and> dict_get [(''k'', JStr (placeholder lone_surrogate))] ''k''
        = Some (JStr (placeholder lone_surrogate))
   \<and> isl (os_environ [] lone_surrogate)
   \<and> interpolate_config (os_environ []) [(''k'', JStr (placeholder lone_surrogate))]
        = Inl (UnicodeEncodeError ''surrogates not allowed'')"
proof -
  have g: "dict_get [(''k'', JStr (placeholder lone_surrogate))] ''k''
        = Some (JStr (placeholder lone_surrogate))"
    by (simp add: dict_get_def)
  have i: "isl (os_environ [] lone_surrogate)"
    by (simp add: os_environ_def lone_surrogate_unencodable)
  have d: "distinct (dict_keys [(''k'', JStr (placeholder lone_surrogate))])"
    by (simp add: dict_keys_def)
  from interpolate_config_shallow [OF d, of "os_environ []"] g i
  have f: "interpolate_config (os_environ []) [(''k'', JStr (placeholder lone_surrogate))]
        = Inl (UnicodeEncodeError ''surrogates not allowed'')"
    by (auto simp: dict_get_def os_environ_def split: if_splits)
  have s: "interpolate_config (os_environ [(''MY_VAR'', ''secret'')])
        [(''key'', JStr ''${MY_VAR}''), (''other'', JStr ''${UNSET}''),
         (''nested'', JList [JStr ''${MY_VAR}''])]
      = Inr [(''key'', JStr ''secret''), (''other'', JStr ''${UNSET}''),
         (''nested'', JList [JStr ''${MY_VAR}''])]"
    by (simp add: interpolate_config_def interpolate_value_def startswith_def
      endswith_def getenv_def os_environ_def)
  from g i f s show ?thesis by (simp add: dict_keys_def)
qed

text \<open>
  The claim as it was stated, no failure for any configuration map, fails on a placeholder
  whose name is a lone surrogate: the variable is unset, and the lookup raises instead of
  leaving the placeholder.
\<close>

theorem interpolate_config_shallow_counterexample:
  "os_environ [] lone_surrogate = Inl (UnicodeEncodeError ''surrogates not allowed'')
   \<and> interpolate_config (os_environ []) [(''k'', JStr (placeholder lone_surrogate))]
        = Inl (UnicodeEncodeError ''surrogates not allowed'')"
  by (simp add: interpolate_config_def interpolate_value_placeholder os_environ_def
      lone_surrogate_unencodable)

section \<open>Loading and reloading the document\<close>


lemma validate_tools_distinct:
  "validate_tools t acc = Inr ts \<Longrightarrow> distinct (dict_keys acc) \<Longrightarrow> distinct (dict_keys ts)"
proof (induction t arbitrary: acc)
  case Nil
  then show ?case by simp
next
  case (Cons a t)
  obtain name j where a: "a = (name, j)" by (cases a)
  from Cons.prems a obtain tc where
    r: "validate_tools t (dict_set acc name tc) = Inr ts"
    by (auto split: sum.splits)
  from Cons.IH [OF r] Cons.prems(2) show ?case
    by (simp add: distinct_dict_set)
qed

lemma validate_MCPConfig_distinct:
  "validate_MCPConfig j = Inr c \<Longrightarrow> distinct (dict_keys (tools c))"
  by (auto simp: validate_MCPConfig_def dict_keys_def
      split: json.splits option.splits sum.splits
      dest!: validate_tools_distinct)

lemma load_config_distinct:
  "snd (load_config src) = Inr c \<Longrightarrow> distinct (dict_keys (tools c))"
  by (auto simp: load_config_def dict_keys_def split: source.splits sum.splits
      dest!: validate_MCPConfig_distinct)



lemma init_two_tool: "ToolManager_init two_tool_document = Inr two_tool_manager"
  by (simp add: ToolManager_init_def two_tool_document_def two_tool_manager_def registry_defs)

text \<open>
  Claim C7. When a reload fails, that is when the load of the source ends with an exception,
  the registry holds the document it held before, unchanged; and through the manager the
  whole state (document, cache, held mapping) is as it was.
\<close>

theorem reload_failure_keeps_document:
  assumes "snd (load_config src) = Inl e"
  shows "ToolRegistry_reload_config src held = (Inl e, held)
    \<and> ToolManager_reload_config src s = (Inl e, s)"
  using assms by (simp add: ToolRegistry_reload_config_def ToolManager_reload_config_def)

section \<open>Enabled tools and their configuration\<close>

text \<open>
  Claim C10. For every document and every tool name, if \<^verbatim>\<open>is_tool_enabled\<close> is true
  then \<^verbatim>\<open>get_tool_config\<close> returns a configuration; so no run of \<^verbatim>\<open>load_tool\<close>
  ends at the return that reports the tool as not found in the registry.
\<close>

theorem enabled_tool_has_config:
  "(is_tool_enabled c tool_name \<longrightarrow> get_tool_config c tool_name \<noteq> None)
   \<and> fst (load_tool import_module env tool_name s) \<noteq> Not_in_registry"
proof -
  have a: "is_tool_enabled c tool_name \<Longrightarrow> get_tool_config c tool_name \<noteq> None" for c
    by (auto simp: is_tool_enabled_def get_tool_config_def split: option.splits)
  have "fst (load_tool import_module env tool_name s) \<noteq> Not_in_registry"
    using a [of "registry_config s"]
    by (auto simp: load_tool_def Let_def load_tool_except_def
        split: option.splits sum.splits if_splits)
  with a show ?thesis by blast
qed

theorem enabled_tool_has_config_witness:
  "is_tool_enabled (registry_config two_tool_manager) ''current_date''
   \<and> get_tool_config (registry_config two_tool_manager) ''current_date'' \<noteq> None"
proof -
  have e: "is_tool_enabled (registry_config two_tool_manager) ''current_date''"
    by (simp add: two_tool_manager_def registry_defs)
  from enabled_tool_has_config [of "registry_config two_tool_manager" "''current_date''"] e
  show ?thesis by blast
qed

lemma enabled_key_is_enabled:
  assumes "distinct (dict_keys (tools c))" and "k \<in> set (dict_keys (get_enabled_tools c))"
  shows "is_tool_enabled c k"
proof -
  from assms(2) obtain tc where m: "(k, tc) \<in> set (tools c)" and e: "enabled tc"
    by (auto simp: get_enabled_tools_def dict_keys_def)
  from assms(1) m have "map_of (tools c) k = Some tc"
    by (simp add: dict_keys_def)
  with e show ?thesis by (simp add: is_tool_enabled_def dict_get_def)
qed

lemma is_enabled_key_enabled:
  assumes "is_tool_enabled c k"
  shows "k \<in> set (dict_keys (get_enabled_tools c))"
proof -
  from assms obtain tc where "map_of (tools c) k = Some tc" and e: "enabled tc"
    by (auto simp: is_tool_enabled_def dict_get_def split: option.splits)
  then have "(k, tc) \<in> set (tools c)" by (simp add: map_of_SomeD)
  with e show ?thesis by (force simp: get_enabled_tools_def dict_keys_def)
qed

section \<open>What the manager holds after \<open>initialize\<close>\<close>

lemma fold_coroutines_keys:
  "set (dict_keys (fold (\<lambda>tool_name tools.
             let tool = Coroutine tool_name
             in if truthy tool then dict_set tools tool_name tool else tools) ks acc))
   = set (dict_keys acc) \<union> set ks"
  by (induction ks arbitrary: acc) (auto simp: truthy_def set_dict_keys_dict_set)

lemma fold_coroutines_values:
  "dict_get (fold (\<lambda>tool_name tools.
             let tool = Coroutine tool_name
             in if truthy tool then dict_set tools tool_name tool else tools) ks acc) k
   = (if k \<in> set ks then Some (Coroutine k) else dict_get acc k)"
  by (induction ks arbitrary: acc) (auto simp: truthy_def dict_get_dict_set)

lemma load_all_tools_keys:
  "set (dict_keys (load_all_tools s)) = set (dict_keys (get_enabled_tools (registry_config s)))"
  by (simp add: load_all_tools_def fold_coroutines_keys dict_keys_simps)

text \<open>
  Every enabled name is mapped to the coroutine object of its load, for every document:
  \<^verbatim>\<open>load_all_tools\<close> puts no tool instance into the mapping.
\<close>

lemma load_all_tools_get:
  "dict_get (load_all_tools s) k =
     (if k \<in> set (dict_keys (get_enabled_tools (registry_config s))) then Some (Coroutine k)
      else None)"
  by (simp add: load_all_tools_def fold_coroutines_values dict_get_Nil)

lemma execute_tool_state:
  "snd (execute_tool tool_name kwargs now s) =
     (if keyword_clash kwargs = [] then
        (case tools_held s of None \<Rightarrow> initialize s | Some _ \<Rightarrow> s)
      else s)"
  by (auto simp: execute_tool_def Let_def initialize_def
      split: option.splits sum.splits list.splits)

lemma execute_tool_clash:
  "keyword_clash kwargs \<noteq> [] \<Longrightarrow>
   \<exists>m. execute_tool tool_name kwargs now s = (Inl (TypeError m), s)"
  by (auto simp: execute_tool_def split: list.splits)

section \<open>The cache and the mapping hold enabled tools only\<close>

lemma consistent_iff:
  "consistent s \<longleftrightarrow>
     distinct (dict_keys (tools (registry_config s)))
     \<and> (\<forall>k \<in> set (dict_keys (tool_cache s)). is_tool_enabled (registry_config s) k)
     \<and> (\<forall>m. tools_held s = Some m \<longrightarrow>
           (\<forall>k \<in> set (dict_keys m). is_tool_enabled (registry_config s) k))"
  by (auto simp: consistent_def list_all_iff split: option.splits)

lemma consistent_init: "ToolManager_init src = Inr s \<Longrightarrow> consistent s"
  by (auto simp: ToolManager_init_def consistent_iff dict_keys_simps split: sum.splits
      dest: load_config_distinct)

lemma consistent_initialize: "consistent s \<Longrightarrow> consistent (initialize s)"
  by (auto simp: consistent_iff initialize_def load_all_tools_keys
      intro: enabled_key_is_enabled)

lemma load_tool_cases:
  "load_tool import_module env tool_name s = (r, s') \<Longrightarrow>
   registry_config s' = registry_config s \<and> tools_held s' = tools_held s
   \<and> (tool_cache s' = tool_cache s
        \<or> (is_tool_enabled (registry_config s) tool_name
            \<and> (\<exists>t. tool_cache s' = dict_set (tool_cache s) tool_name t)))"
  by (auto simp: load_tool_def Let_def split: option.splits sum.splits if_splits)

lemma load_tool_calls:
  "load_tool import_module env tool_name s = (r, s') \<Longrightarrow>
   calls s' = calls s
   \<or> (is_tool_enabled (registry_config s) tool_name
       \<and> (calls s' = calls s @ [Call_interpolate_config tool_name]
            \<or> calls s' = calls s @ [Call_interpolate_config tool_name, Call_constructor tool_name]))"
  by (auto simp: load_tool_def Let_def split: option.splits sum.splits if_splits)

lemma consistent_load_tool:
  assumes "consistent s"
  shows "consistent (snd (load_tool import_module env tool_name s))"
proof -
  obtain r s' where l: "load_tool import_module env tool_name s = (r, s')"
    by (cases "load_tool import_module env tool_name s")
  from load_tool_cases [OF l] assms have "consistent s'"
    by (auto simp: consistent_iff set_dict_keys_dict_set)
  with l show ?thesis by simp
qed

lemma consistent_execute_tool:
  "consistent s \<Longrightarrow> consistent (snd (execute_tool tool_name kwargs now s))"
  by (simp add: execute_tool_state consistent_initialize split: option.splits)

lemma consistent_clear_cache: "consistent s \<Longrightarrow> consistent (clear_cache s)"
  by (simp add: consistent_iff clear_cache_def dict_keys_simps)

lemma consistent_reload_config:
  "consistent s \<Longrightarrow> consistent (snd (ToolManager_reload_config src s))"
  by (auto simp: consistent_iff ToolManager_reload_config_def ToolRegistry_reload_config_def
      clear_cache_def dict_keys_simps split: sum.splits dest: load_config_distinct)

lemma consistent_step: "\<not> is_registry_reload op \<Longrightarrow> consistent s \<Longrightarrow> consistent (step op s)"
  by (cases op)
    (simp_all add: consistent_initialize consistent_execute_tool consistent_load_tool
      consistent_reload_config consistent_clear_cache)

lemma consistent_run: "no_direct_reload ops \<Longrightarrow> consistent s \<Longrightarrow> consistent (run ops s)"
  unfolding run_def no_direct_reload_def
  by (induction ops arbitrary: s) (simp_all add: consistent_step)

lemma consistent_reachable:
  "ToolManager_init src = Inr s0 \<Longrightarrow> no_direct_reload ops \<Longrightarrow> consistent (run ops s0)"
  by (simp add: consistent_init consistent_run)

text \<open>With the direct reload too, the document still has one entry for each name.\<close>

lemma distinct_step:
  assumes "distinct (dict_keys (tools (registry_config s)))"
  shows "distinct (dict_keys (tools (registry_config (step op s))))"
proof (cases op)
  case Op_initialize
  with assms show ?thesis by (simp add: initialize_def)
next
  case (Op_execute_tool n k t)
  with assms show ?thesis
    by (simp add: execute_tool_state initialize_def split: option.splits)
next
  case (Op_load_tool imp env n)
  obtain r s' where l: "load_tool imp env n s = (r, s')" by (cases "load_tool imp env n s")
  from load_tool_cases [OF l] assms l Op_load_tool show ?thesis by simp
next
  case (Op_reload_config src)
  with assms show ?thesis
    by (auto simp: ToolManager_reload_config_def ToolRegistry_reload_config_def clear_cache_def
        split: sum.splits dest: load_config_distinct)
next
  case Op_clear_cache
  with assms show ?thesis by (simp add: clear_cache_def)
next
  case (Op_registry_reload_config src)
  with assms show ?thesis
    by (auto simp: ToolRegistry_reload_config_def split: sum.splits dest: load_config_distinct)
qed

lemma distinct_run:
  "distinct (dict_keys (tools (registry_config s))) \<Longrightarrow>
   distinct (dict_keys (tools (registry_config (run ops s))))"
  unfolding run_def by (induction ops arbitrary: s) (simp_all add: distinct_step)

lemma distinct_reachable:
  "ToolManager_init src = Inr s0 \<Longrightarrow> distinct (dict_keys (tools (registry_config (run ops s0))))"
  using consistent_init [of src s0] by (simp add: consistent_iff distinct_run)

lemma load_tool_not_cached_not_enabled:
  assumes "dict_get (tool_cache s) tool_name = None"
    and "\<not> is_tool_enabled (registry_config s) tool_name"
  shows "load_tool import_module env tool_name s = (Not_enabled, s)"
  using assms by (simp add: load_tool_def)

lemma load_tool_from_cache:
  "dict_get (tool_cache s) tool_name = Some t \<Longrightarrow>
   load_tool import_module env tool_name s = (From_cache t, s)"
  by (simp add: load_tool_def)

lemma execute_tool_not_held:
  assumes "consistent s" and "\<not> is_tool_enabled (registry_config s) tool_name"
    and "keyword_clash kwargs = []"
  shows "fst (execute_tool tool_name kwargs now s) =
           Inr \<lparr>success = False, data = JNull, error = Some (not_found_message tool_name)\<rparr>"
proof (cases "tools_held s")
  case None
  from assms(2) have "tool_name \<notin> set (dict_keys (get_enabled_tools (registry_config s)))"
    using enabled_key_is_enabled assms(1) by (auto simp: consistent_iff)
  then have "\<not> dict_contains (load_all_tools s) tool_name"
    by (simp add: dict_contains_def load_all_tools_keys)
  with None assms(3) show ?thesis
    by (simp add: execute_tool_def initialize_def)
next
  case (Some m)
  with assms have "\<not> dict_contains m tool_name"
    by (auto simp: consistent_iff dict_contains_def)
  with Some assms(3) show ?thesis
    by (simp add: execute_tool_def)
qed

lemma step_constructs_enabled_only:
  assumes "\<not> is_tool_enabled (registry_config s) tool_name"
  shows "filter (\<lambda>c. c = Call_constructor tool_name) (calls (step op s))
       = filter (\<lambda>c. c = Call_constructor tool_name) (calls s)"
proof (cases op)
  case Op_initialize
  then show ?thesis by (simp add: initialize_def)
next
  case (Op_execute_tool n k t)
  then show ?thesis by (simp add: execute_tool_state initialize_def split: option.splits)
next
  case (Op_load_tool imp env n)
  obtain r s' where l: "load_tool imp env n s = (r, s')" by (cases "load_tool imp env n s")
  from load_tool_calls [OF l] assms have
    "filter (\<lambda>c. c = Call_constructor tool_name) (calls s')
       = filter (\<lambda>c. c = Call_constructor tool_name) (calls s)"
    by auto
  with l Op_load_tool show ?thesis by simp
next
  case (Op_reload_config src)
  then show ?thesis
    by (auto simp: ToolManager_reload_config_def ToolRegistry_reload_config_def clear_cache_def
        split: sum.splits)
next
  case Op_clear_cache
  then show ?thesis by (simp add: clear_cache_def)
next
  case (Op_registry_reload_config src)
  then show ?thesis by simp
qed

subsection \<open>Runs used to instantiate the properties\<close>

lemma pascal_sqlite: "to_pascal_case ''sqlite'' = ''Sqlite''"
  by code_simp

lemma pascal_current_date: "to_pascal_case ''current_date'' = ''CurrentDate''"
  by code_simp

lemma no_environ_empty: "interpolate_config no_environ [] = Inr []"
  by (simp add: interpolate_config_def)

lemma load_current_date_two_tool:
  "load_tool current_date_importer no_environ ''current_date'' two_tool_manager =
     (Loaded (Instance 0 [] CurrentDate_execute),
      two_tool_manager
        \<lparr>tool_cache := [(''current_date'', Instance 0 [] CurrentDate_execute)],
         calls := [Call_interpolate_config ''current_date'', Call_constructor ''current_date''],
         next_id := 1\<rparr>)"
  by (simp add: load_tool_def two_tool_manager_def registry_defs TOOL_IMPLEMENTATIONS_def
      current_date_importer_def pascal_current_date CurrentDate_def no_environ_empty Let_def)

lemma step_load:
  "step (Op_load_tool current_date_importer no_environ ''current_date'') two_tool_manager
     = (two_tool_manager
        \<lparr>tool_cache := [(''current_date'', Instance 0 [] CurrentDate_execute)],
         calls := [Call_interpolate_config ''current_date'', Call_constructor ''current_date''],
         next_id := 1\<rparr>)"
  by (simp add: load_current_date_two_tool)

lemma step_initialize:
  "step Op_initialize (two_tool_manager
        \<lparr>tool_cache := [(''current_date'', Instance 0 [] CurrentDate_execute)],
         calls := [Call_interpolate_config ''current_date'', Call_constructor ''current_date''],
         next_id := 1\<rparr>)
     = (two_tool_manager
        \<lparr>tool_cache := [(''current_date'', Instance 0 [] CurrentDate_execute)],
         tools_held := Some [(''current_date'', Coroutine ''current_date'')],
         calls := [Call_interpolate_config ''current_date'', Call_constructor ''current_date''],
         next_id := 1\<rparr>)"
  by (simp add: initialize_def load_all_tools_def two_tool_manager_def registry_defs truthy_def)

lemma step_execute:
  "step (Op_execute_tool ''current_date'' [] clock0) (two_tool_manager
        \<lparr>tool_cache := [(''current_date'', Instance 0 [] CurrentDate_execute)],
         tools_held := Some [(''current_date'', Coroutine ''current_date'')],
         calls := [Call_interpolate_config ''current_date'', Call_constructor ''current_date''],
         next_id := 1\<rparr>)
     = (two_tool_manager
        \<lparr>tool_cache := [(''current_date'', Instance 0 [] CurrentDate_execute)],
         tools_held := Some [(''current_date'', Coroutine ''current_date'')],
         calls := [Call_interpolate_config ''current_date'', Call_constructor ''current_date''],
         next_id := 1\<rparr>)"
  by (simp add: execute_tool_state keyword_clash_def dict_keys_def)

lemma run_witness_ops:
  "run witness_ops two_tool_manager = (two_tool_manager
        \<lparr>tool_cache := [(''current_date'', Instance 0 [] CurrentDate_execute)],
         tools_held := Some [(''current_date'', Coroutine ''current_date'')],
         calls := [Call_interpolate_config ''current_date'', Call_constructor ''current_date''],
         next_id := 1\<rparr>)"
  unfolding run_def witness_ops_def
  by (simp only: fold_simps o_apply id_apply step_load step_initialize step_execute)

lemma no_direct_reload_witness_ops: "no_direct_reload witness_ops"
  by (simp add: no_direct_reload_def witness_ops_def)

lemma disabled_document_loads:
  "snd (load_config disabled_document) =
     Inr \<lparr>version = ''1.0'',
          tools = [(''current_date'', \<lparr>enabled = False, description = ''d'', config = []\<rparr>)]\<rparr>"
  by (simp add: disabled_document_def registry_defs)

lemma step_registry_disabled:
  "step (Op_registry_reload_config disabled_document) (two_tool_manager
        \<lparr>tool_cache := [(''current_date'', Instance 0 [] CurrentDate_execute)],
         tools_held := Some [(''current_date'', Coroutine ''current_date'')],
         calls := [Call_interpolate_config ''current_date'', Call_constructor ''current_date''],
         next_id := 1\<rparr>)
     = (two_tool_manager
        \<lparr>tool_cache := [(''current_date'', Instance 0 [] CurrentDate_execute)],
         tools_held := Some [(''current_date'', Coroutine ''current_date'')],
         calls := [Call_interpolate_config ''current_date'', Call_constructor ''current_date''],
         next_id := 1\<rparr>)
        \<lparr>registry_config := \<lparr>version = ''1.0'',
          tools = [(''current_date'', \<lparr>enabled = False, description = ''d'', config = []\<rparr>)]\<rparr>\<rparr>"
  by (simp add: ToolRegistry_reload_config_def disabled_document_loads)

lemma run_stale_disabled_ops:
  "run stale_disabled_ops two_tool_manager
     = (two_tool_manager
        \<lparr>tool_cache := [(''current_date'', Instance 0 [] CurrentDate_execute)],
         tools_held := Some [(''current_date'', Coroutine ''current_date'')],
         calls := [Call_interpolate_config ''current_date'', Call_constructor ''current_date''],
         next_id := 1\<rparr>)
        \<lparr>registry_config := \<lparr>version = ''1.0'',
          tools = [(''current_date'', \<lparr>enabled = False, description = ''d'', config = []\<rparr>)]\<rparr>\<rparr>"
  unfolding run_def stale_disabled_ops_def
  by (simp only: fold_simps o_apply id_apply step_load step_initialize step_registry_disabled)

lemma step_registry_absent:
  "step (Op_registry_reload_config Absent) (two_tool_manager
        \<lparr>tool_cache := [(''current_date'', Instance 0 [] CurrentDate_execute)],
         calls := [Call_interpolate_config ''current_date'', Call_constructor ''current_date''],
         next_id := 1\<rparr>)
     = (two_tool_manager
        \<lparr>tool_cache := [(''current_date'', Instance 0 [] CurrentDate_execute)],
         calls := [Call_interpolate_config ''current_date'', Call_constructor ''current_date''],
         next_id := 1\<rparr>)
        \<lparr>registry_config := \<lparr>version = ''1.0'', tools = []\<rparr>\<rparr>"
  by (simp add: ToolRegistry_reload_config_def load_config_def)

lemma run_stale_unknown_ops:
  "run stale_unknown_ops two_tool_manager
     = (two_tool_manager
        \<lparr>tool_cache := [(''current_date'', Instance 0 [] CurrentDate_execute)],
         calls := [Call_interpolate_config ''current_date'', Call_constructor ''current_date''],
         next_id := 1\<rparr>)
        \<lparr>registry_config := \<lparr>version = ''1.0'', tools = []\<rparr>\<rparr>"
  unfolding run_def stale_unknown_ops_def
  by (simp only: fold_simps o_apply id_apply step_load step_registry_absent)

theorem reload_failure_keeps_document_witness:
  "snd (load_config (Present (Inl (JSONDecodeError ''Expecting value''))))
     = Inl (JSONDecodeError ''Expecting value'')
   \<and> ToolRegistry_reload_config (Present (Inl (JSONDecodeError ''Expecting value'')))
        (registry_config two_tool_manager)
       = (Inl (JSONDecodeError ''Expecting value''), registry_config two_tool_manager)
   \<and> ToolManager_reload_config (Present (Inl (JSONDecodeError ''Expecting value'')))
        (run witness_ops two_tool_manager)
       = (Inl (JSONDecodeError ''Expecting value''), run witness_ops two_tool_manager)"
proof -
  have h: "snd (load_config (Present (Inl (JSONDecodeError ''Expecting value''))))
     = Inl (JSONDecodeError ''Expecting value'')"
    by (simp add: load_config_def)
  from reload_failure_keeps_document [OF h] h show ?thesis by simp
qed

section \<open>Unknown and disabled tools\<close>

text \<open>
  Claim C8, as the source has it. In every state that a constructed manager reaches, for
  every tool name that is not in the \<^verbatim>\<open>tools\<close> mapping of the held document:
  \<^verbatim>\<open>is_tool_enabled\<close> is false; an awaited \<^verbatim>\<open>load_tool\<close> returns \<^verbatim>\<open>None\<close>
  and changes nothing when the cache has no entry for the name, and returns the cached entry
  when it has one; and the cache has no entry for the name when the document was replaced
  through the manager only, never by \<^verbatim>\<open>reload_config\<close> called on the registry itself.
\<close>

theorem unknown_tool_not_loaded:
  assumes "ToolManager_init src = Inr s0"
    and "\<not> dict_contains (tools (registry_config (run ops s0))) tool_name"
  shows "\<not> is_tool_enabled (registry_config (run ops s0)) tool_name
    \<and> (dict_get (tool_cache (run ops s0)) tool_name = None \<longrightarrow>
          returned (fst (load_tool import_module env tool_name (run ops s0))) = Inr None
          \<and> snd (load_tool import_module env tool_name (run ops s0)) = run ops s0)
    \<and> (\<forall>t. dict_get (tool_cache (run ops s0)) tool_name = Some t \<longrightarrow>
          load_tool import_module env tool_name (run ops s0) = (From_cache t, run ops s0))
    \<and> (no_direct_reload ops \<longrightarrow> dict_get (tool_cache (run ops s0)) tool_name = None)"
proof -
  from assms(2) have n: "\<not> is_tool_enabled (registry_config (run ops s0)) tool_name"
    by (simp add: dict_contains_iff is_tool_enabled_def)
  have a: "returned (fst (load_tool import_module env tool_name (run ops s0))) = Inr None
          \<and> snd (load_tool import_module env tool_name (run ops s0)) = run ops s0"
    if "dict_get (tool_cache (run ops s0)) tool_name = None"
    using load_tool_not_cached_not_enabled [OF that n] by (simp add: returned_def)
  have b: "dict_get (tool_cache (run ops s0)) tool_name = None" if "no_direct_reload ops"
  proof -
    from consistent_reachable [OF assms(1) that] n
    have "tool_name \<notin> set (dict_keys (tool_cache (run ops s0)))"
      by (auto simp: consistent_iff)
    then show ?thesis by (simp add: dict_get_None_iff)
  qed
  from n a b show ?thesis by (simp add: load_tool_from_cache)
qed

theorem unknown_tool_not_loaded_witness:
  "ToolManager_init two_tool_document = Inr two_tool_manager
   \<and> \<not> dict_contains (tools (registry_config (run witness_ops two_tool_manager))) ''sqlite''
   \<and> no_direct_reload witness_ops
   \<and> \<not> is_tool_enabled (registry_config (run witness_ops two_tool_manager)) ''sqlite''
   \<and> dict_get (tool_cache (run witness_ops two_tool_manager)) ''sqlite'' = None
   \<and> returned (fst (load_tool raising_importer no_environ ''sqlite''
          (run witness_ops two_tool_manager))) = Inr None
   \<and> \<not> dict_contains (tools (registry_config (run stale_unknown_ops two_tool_manager)))
         ''current_date''
   \<and> dict_get (tool_cache (run stale_unknown_ops two_tool_manager)) ''current_date''
       = Some (Instance 0 [] CurrentDate_execute)
   \<and> load_tool raising_importer no_environ ''current_date''
         (run stale_unknown_ops two_tool_manager)
       = (From_cache (Instance 0 [] CurrentDate_execute),
          run stale_unknown_ops two_tool_manager)"
proof -
  have h: "\<not> dict_contains (tools (registry_config (run witness_ops two_tool_manager))) ''sqlite''"
    unfolding run_witness_ops by (simp add: two_tool_manager_def dict_contains_def dict_keys_def)
  have c: "dict_get (tool_cache (run stale_unknown_ops two_tool_manager)) ''current_date''
      = Some (Instance 0 [] CurrentDate_execute)"
    unfolding run_stale_unknown_ops by (simp add: dict_get_def)
  have d: "\<not> dict_contains (tools (registry_config (run stale_unknown_ops two_tool_manager)))
         ''current_date''"
    unfolding run_stale_unknown_ops by (simp add: dict_contains_def dict_keys_def)
  from unknown_tool_not_loaded [OF init_two_tool h, of raising_importer no_environ]
    unknown_tool_not_loaded [OF init_two_tool d, of raising_importer no_environ]
    init_two_tool h c d no_direct_reload_witness_ops
  show ?thesis by simp
qed

text \<open>
  The claim as it was stated fails after a reload of the registry itself: the tool was loaded
  while the document declared it, the document no longer has the name, and
  \<^verbatim>\<open>load_tool\<close> returns the cached instance.
\<close>

theorem unknown_tool_not_loaded_counterexample:
  "ToolManager_init two_tool_document = Inr two_tool_manager
   \<and> \<not> dict_contains (tools (registry_config (run stale_unknown_ops two_tool_manager)))
         ''current_date''
   \<and> returned (fst (load_tool current_date_importer no_environ ''current_date''
          (run stale_unknown_ops two_tool_manager)))
       = Inr (Some (Instance 0 [] CurrentDate_execute))"
proof -
  have c: "dict_get (tool_cache (run stale_unknown_ops two_tool_manager)) ''current_date''
      = Some (Instance 0 [] CurrentDate_execute)"
    unfolding run_stale_unknown_ops by (simp add: dict_get_def)
  have d: "\<not> dict_contains (tools (registry_config (run stale_unknown_ops two_tool_manager)))
         ''current_date''"
    unfolding run_stale_unknown_ops by (simp add: dict_contains_def dict_keys_def)
  from init_two_tool d load_tool_from_cache [OF c] show ?thesis
    by (simp add: returned_def)
qed

text \<open>
  Claim C4, as the source has it. In every state that a constructed manager reaches, for
  every tool name that the held document declares with \<^verbatim>\<open>enabled\<close> false:
  \<^verbatim>\<open>get_enabled_tools\<close> leaves it out; an awaited \<^verbatim>\<open>load_tool\<close> returns
  \<^verbatim>\<open>None\<close> as not enabled and changes nothing when the cache has no entry for the name,
  and returns the cached entry when it has one; no call on the subsystem adds a call of its
  constructor; \<^verbatim>\<open>execute_tool\<close> makes no interpolation or construction and leaves the
  cache as it is, and with an arguments map that holds the key \<^verbatim>\<open>self\<close> or
  \<^verbatim>\<open>tool_name\<close> it raises \<^verbatim>\<open>TypeError\<close>. When the document was replaced through
  the manager only, never by \<^verbatim>\<open>reload_config\<close> called on the registry itself, the cache
  and the held mapping have no entry for the name, and \<^verbatim>\<open>execute_tool\<close> with an
  arguments map without those two keys returns \<^verbatim>\<open>success\<close> false with the error
  "Tool ... not found or not enabled".
\<close>

theorem disabled_tool_never_loaded:
  assumes "ToolManager_init src = Inr s0" and "s = run ops s0"
    and "dict_get (tools (registry_config s)) tool_name = Some tc" and "\<not> enabled tc"
  shows "\<not> dict_contains (get_enabled_tools (registry_config s)) tool_name
    \<and> (dict_get (tool_cache s) tool_name = None \<longrightarrow>
          load_tool import_module env tool_name s = (Not_enabled, s))
    \<and> (\<forall>t. dict_get (tool_cache s) tool_name = Some t \<longrightarrow>
          load_tool import_module env tool_name s = (From_cache t, s))
    \<and> filter (\<lambda>c. c = Call_constructor tool_name) (calls (step op s))
        = filter (\<lambda>c. c = Call_constructor tool_name) (calls s)
    \<and> calls (snd (execute_tool tool_name kwargs now s)) = calls s
    \<and> tool_cache (snd (execute_tool tool_name kwargs now s)) = tool_cache s
    \<and> (keyword_clash kwargs \<noteq> [] \<longrightarrow>
          (\<exists>m. execute_tool tool_name kwargs now s = (Inl (TypeError m), s)))
    \<and> (no_direct_reload ops \<longrightarrow>
          \<not> dict_contains (tool_cache s) tool_name
          \<and> (\<forall>m. tools_held s = Some m \<longrightarrow> \<not> dict_contains m tool_name)
          \<and> (keyword_clash kwargs = [] \<longrightarrow>
                fst (execute_tool tool_name kwargs now s) =
                  Inr \<lparr>success = False, data = JNull,
                       error = Some (not_found_message tool_name)\<rparr>))"
proof -
  from assms(1,2) have d: "distinct (dict_keys (tools (registry_config s)))"
    by (simp add: distinct_reachable)
  from assms(3,4) have n: "\<not> is_tool_enabled (registry_config s) tool_name"
    by (simp add: is_tool_enabled_def)
  from d n have 1: "\<not> dict_contains (get_enabled_tools (registry_config s)) tool_name"
    using enabled_key_is_enabled by (auto simp: dict_contains_def)
  have 2: "load_tool import_module env tool_name s = (Not_enabled, s)"
    if "dict_get (tool_cache s) tool_name = None"
    by (rule load_tool_not_cached_not_enabled [OF that n])
  have 3: "filter (\<lambda>c. c = Call_constructor tool_name) (calls (step op s))
        = filter (\<lambda>c. c = Call_constructor tool_name) (calls s)"
    by (rule step_constructs_enabled_only [OF n])
  have 4: "calls (snd (execute_tool tool_name kwargs now s)) = calls s"
    and 5: "tool_cache (snd (execute_tool tool_name kwargs now s)) = tool_cache s"
    by (simp_all add: execute_tool_state initialize_def split: option.splits)
  have 6: "\<exists>m. execute_tool tool_name kwargs now s = (Inl (TypeError m), s)"
    if "keyword_clash kwargs \<noteq> []"
    by (rule execute_tool_clash [OF that])
  have 7: "\<not> dict_contains (tool_cache s) tool_name
          \<and> (\<forall>m. tools_held s = Some m \<longrightarrow> \<not> dict_contains m tool_name)
          \<and> (keyword_clash kwargs = [] \<longrightarrow>
                fst (execute_tool tool_name kwargs now s) =
                  Inr \<lparr>success = False, data = JNull,
                       error = Some (not_found_message tool_name)\<rparr>)"
    if r: "no_direct_reload ops"
  proof -
    from assms(1,2) r have c: "consistent s" by (simp add: consistent_reachable)
    from c n have a: "\<not> dict_contains (tool_cache s) tool_name"
      and b: "\<forall>m. tools_held s = Some m \<longrightarrow> \<not> dict_contains m tool_name"
      by (auto simp: consistent_iff dict_contains_def)
    from a b execute_tool_not_held [OF c n] show ?thesis by blast
  qed
  from 1 2 3 4 5 6 7 show ?thesis
    by (simp add: load_tool_from_cache)
qed

theorem disabled_tool_never_loaded_witness:
  "ToolManager_init two_tool_document = Inr two_tool_manager
   \<and> no_direct_reload witness_ops
   \<and> dict_get (tools (registry_config (run witness_ops two_tool_manager))) ''google_search''
       = Some \<lparr>enabled = False, description = ''search'',
               config = [(''api_key'', JStr ''${GOOGLE_API_KEY}'')]\<rparr>
   \<and> dict_get (tool_cache (run witness_ops two_tool_manager)) ''google_search'' = None
   \<and> load_tool current_date_importer no_environ ''google_search'' (run witness_ops two_tool_manager)
       = (Not_enabled, run witness_ops two_tool_manager)
   \<and> keyword_clash [(''query'', JStr ''x'')] = []
   \<and> fst (execute_tool ''google_search'' [(''query'', JStr ''x'')] clock0
            (run witness_ops two_tool_manager))
       = Inr \<lparr>success = False, data = JNull,
              error = Some (not_found_message ''google_search'')\<rparr>
   \<and> keyword_clash [(''self'', JNull)] \<noteq> []
   \<and> (\<exists>m. execute_tool ''google_search'' [(''self'', JNull)] clock0
              (run witness_ops two_tool_manager)
            = (Inl (TypeError m), run witness_ops two_tool_manager))
   \<and> dict_get (tools (registry_config (run stale_disabled_ops two_tool_manager))) ''current_date''
       = Some \<lparr>enabled = False, description = ''d'', config = []\<rparr>
   \<and> dict_get (tool_cache (run stale_disabled_ops two_tool_manager)) ''current_date''
       = Some (Instance 0 [] CurrentDate_execute)
   \<and> load_tool raising_importer no_environ ''current_date''
         (run stale_disabled_ops two_tool_manager)
       = (From_cache (Instance 0 [] CurrentDate_execute),
          run stale_disabled_ops two_tool_manager)"
proof -
  have g': "dict_get (tools (registry_config (run stale_disabled_ops two_tool_manager)))
        ''current_date'' = Some \<lparr>enabled = False, description = ''d'', config = []\<rparr>"
    unfolding run_stale_disabled_ops by (simp add: dict_get_def)
  have n': "\<not> enabled \<lparr>enabled = False, description = ''d'', config = []\<rparr>"
    by simp
  have c': "dict_get (tool_cache (run stale_disabled_ops two_tool_manager)) ''current_date''
      = Some (Instance 0 [] CurrentDate_execute)"
    unfolding run_stale_disabled_ops by (simp add: dict_get_def)
  have k': "keyword_clash [(''self'', JNull)] \<noteq> []"
    by (simp add: keyword_clash_def dict_keys_def)
  have h: "dict_get (tools (registry_config (run witness_ops two_tool_manager))) ''google_search''
       = Some \<lparr>enabled = False, description = ''search'',
               config = [(''api_key'', JStr ''${GOOGLE_API_KEY}'')]\<rparr>"
    unfolding run_witness_ops by (simp add: two_tool_manager_def dict_get_def)
  have n: "\<not> enabled \<lparr>enabled = False, description = ''search'',
               config = [(''api_key'', JStr ''${GOOGLE_API_KEY}'')]\<rparr>"
    by simp
  have c: "dict_get (tool_cache (run witness_ops two_tool_manager)) ''google_search'' = None"
    unfolding run_witness_ops by (simp add: dict_get_def)
  have k: "keyword_clash [(''query'', JStr ''x'')] = []"
    by (simp add: keyword_clash_def dict_keys_def)
  from disabled_tool_never_loaded [OF init_two_tool refl h n,
      of current_date_importer no_environ Op_initialize "[(''query'', JStr ''x'')]" clock0]
    disabled_tool_never_loaded [OF init_two_tool refl h n,
      of current_date_importer no_environ Op_initialize "[(''self'', JNull)]" clock0]
    disabled_tool_never_loaded [OF init_two_tool refl g' n',
      of raising_importer no_environ Op_initialize "[]" clock0]
    init_two_tool h c k g' c' k' no_direct_reload_witness_ops
  show ?thesis by simp
qed

text \<open>
  The claim as it was stated fails after a reload of the registry itself: the tool was loaded
  and the manager initialized while the document enabled the tool; the document now declares
  it disabled, and the cache still holds the instance, \<^verbatim>\<open>load_tool\<close> returns it, and
  \<^verbatim>\<open>execute_tool\<close> finds the name in the held mapping, so its error is not the
  "not found" one.
\<close>

theorem disabled_tool_never_loaded_counterexample:
  "ToolManager_init two_tool_document = Inr two_tool_manager
   \<and> dict_get (tools (registry_config (run stale_disabled_ops two_tool_manager))) ''current_date''
       = Some \<lparr>enabled = False, description = ''d'', config = []\<rparr>
   \<and> dict_contains (tool_cache (run stale_disabled_ops two_tool_manager)) ''current_date''
   \<and> returned (fst (load_tool current_date_importer no_environ ''current_date''
          (run stale_disabled_ops two_tool_manager)))
       = Inr (Some (Instance 0 [] CurrentDate_execute))
   \<and> fst (execute_tool ''current_date'' [] clock0 (run stale_disabled_ops two_tool_manager))
       = Inr \<lparr>success = False, data = JNull,
              error = Some (quoted ''coroutine'' @ '' object has no attribute ''
                        @ quoted ''execute'')\<rparr>
   \<and> quoted ''coroutine'' @ '' object has no attribute '' @ quoted ''execute''
       \<noteq> not_found_message ''current_date''"
proof -
  have g: "dict_get (tools (registry_config (run stale_disabled_ops two_tool_manager)))
        ''current_date'' = Some \<lparr>enabled = False, description = ''d'', config = []\<rparr>"
    unfolding run_stale_disabled_ops by (simp add: dict_get_def)
  have c: "dict_get (tool_cache (run stale_disabled_ops two_tool_manager)) ''current_date''
      = Some (Instance 0 [] CurrentDate_execute)"
    unfolding run_stale_disabled_ops by (simp add: dict_get_def)
  then have c': "dict_contains (tool_cache (run stale_disabled_ops two_tool_manager))
      ''current_date''"
    by (simp add: dict_contains_iff)
  have e: "fst (execute_tool ''current_date'' [] clock0
        (run stale_disabled_ops two_tool_manager))
       = Inr \<lparr>success = False, data = JNull,
              error = Some (quoted ''coroutine'' @ '' object has no attribute ''
                        @ quoted ''execute'')\<rparr>"
    unfolding run_stale_disabled_ops
    by (simp add: execute_tool_def keyword_clash_def dict_contains_def dict_keys_def dict_get_def
        call_execute_def execute_tool_except_def caught_by_except_Exception_def
        AttributeError_def)
  have m: "quoted ''coroutine'' @ '' object has no attribute '' @ quoted ''execute''
       \<noteq> not_found_message ''current_date''"
    by (simp add: quoted_def not_found_message_def)
  from init_two_tool g c' load_tool_from_cache [OF c] e m show ?thesis
    by (simp add: returned_def)
qed

section \<open>The cache of the loader\<close>

lemma load_tool_success:
  assumes "load_tool import_module env x s = (r, s')"
    and "r = From_cache t \<or> r = Loaded t"
  shows "dict_get (tool_cache s') x = Some t"
    and "dict_get (tool_cache s) x = None \<Longrightarrow>
      calls s' = calls s @ [Call_interpolate_config x, Call_constructor x]"
  using assms
  by (auto simp: load_tool_def Let_def load_tool_except_def dict_get_dict_set
      split: option.splits sum.splits if_splits)

lemma enabled_has_config:
  "is_tool_enabled c x \<Longrightarrow> \<exists>tc. get_tool_config c x = Some tc"
  by (auto simp: is_tool_enabled_def get_tool_config_def split: option.splits)

lemma load_tool_failure:
  assumes "load_tool import_module env x s = (r, s')"
    and "is_tool_enabled (registry_config s) x"
    and "\<forall>t. r \<noteq> From_cache t \<and> r \<noteq> Loaded t"
  shows "dict_get (tool_cache s) x = None \<and> tool_cache s' = tool_cache s
    \<and> registry_config s' = registry_config s
    \<and> (calls s' = calls s @ [Call_interpolate_config x]
        \<or> calls s' = calls s @ [Call_interpolate_config x, Call_constructor x])"
  using assms enabled_has_config [OF assms(2)]
  by (auto simp: load_tool_def Let_def load_tool_except_def
      split: option.splits sum.splits if_splits)

lemma load_tool_retry:
  assumes "is_tool_enabled (registry_config s) x" and "dict_get (tool_cache s) x = None"
  shows "\<exists>rest. calls (snd (load_tool import_module env x s))
           = calls s @ Call_interpolate_config x # rest"
  using assms enabled_has_config [OF assms(1)]
  by (auto simp: load_tool_def Let_def load_tool_except_def
      split: option.splits sum.splits if_splits)

lemma returned_Some_iff:
  "returned r = Inr (Some t) \<longleftrightarrow> r = From_cache t \<or> r = Loaded t"
  by (auto simp: returned_def split: load_result.splits)

text \<open>
  Claim C5, as the source has it. For every enabled tool name: if the awaited
  \<^verbatim>\<open>load_tool\<close> returns an instance, the instance is in the cache under the name when
  the call returns; a second \<^verbatim>\<open>load_tool\<close> of the name, whatever the importer and the
  environment are by then, returns the identical instance from the cache and changes nothing,
  so it neither interpolates nor constructs; and when the first call did not find the name in
  the cache, it made exactly one interpolation followed by one construction. If the call
  returns no instance (the interpolation fails, there is no implementation, the import fails,
  the class is missing, or the constructor raises), the cache and the document are as before,
  the call has interpolated, and the next \<^verbatim>\<open>load_tool\<close> of the name interpolates again.
\<close>

theorem load_tool_cached:
  assumes "is_tool_enabled (registry_config s) x"
  shows "(\<forall>t. returned (fst (load_tool import_module env x s)) = Inr (Some t) \<longrightarrow>
            dict_get (tool_cache (snd (load_tool import_module env x s))) x = Some t
            \<and> load_tool import_module' env' x (snd (load_tool import_module env x s))
                = (From_cache t, snd (load_tool import_module env x s))
            \<and> (dict_get (tool_cache s) x = None \<longrightarrow>
                 calls (snd (load_tool import_module env x s))
                   = calls s @ [Call_interpolate_config x, Call_constructor x]))
    \<and> ((\<forall>t. returned (fst (load_tool import_module env x s)) \<noteq> Inr (Some t)) \<longrightarrow>
            tool_cache (snd (load_tool import_module env x s)) = tool_cache s
            \<and> registry_config (snd (load_tool import_module env x s)) = registry_config s
            \<and> (\<exists>rest. calls (snd (load_tool import_module env x s))
                  = calls s @ Call_interpolate_config x # rest)
            \<and> (\<exists>rest. calls (snd (load_tool import_module' env' x
                                   (snd (load_tool import_module env x s))))
                  = calls (snd (load_tool import_module env x s))
                      @ Call_interpolate_config x # rest))"
proof -
  obtain r s' where l: "load_tool import_module env x s = (r, s')"
    by (cases "load_tool import_module env x s")
  have a: "dict_get (tool_cache s') x = Some t
      \<and> load_tool import_module' env' x s' = (From_cache t, s')
      \<and> (dict_get (tool_cache s) x = None \<longrightarrow>
            calls s' = calls s @ [Call_interpolate_config x, Call_constructor x])"
    if "returned r = Inr (Some t)" for t
  proof -
    from that have r: "r = From_cache t \<or> r = Loaded t" by (simp add: returned_Some_iff)
    from load_tool_success [OF l r] show ?thesis
      by (simp add: load_tool_from_cache)
  qed
  have b: "tool_cache s' = tool_cache s \<and> registry_config s' = registry_config s
      \<and> (\<exists>rest. calls s' = calls s @ Call_interpolate_config x # rest)
      \<and> (\<exists>rest. calls (snd (load_tool import_module' env' x s'))
            = calls s' @ Call_interpolate_config x # rest)"
    if "\<forall>t. returned r \<noteq> Inr (Some t)"
  proof -
    from that have "\<forall>t. r \<noteq> From_cache t \<and> r \<noteq> Loaded t"
      by (simp add: returned_Some_iff)
    from load_tool_failure [OF l assms this]
    have n: "dict_get (tool_cache s) x = None" and c: "tool_cache s' = tool_cache s"
      and g: "registry_config s' = registry_config s"
      and k: "calls s' = calls s @ [Call_interpolate_config x]
        \<or> calls s' = calls s @ [Call_interpolate_config x, Call_constructor x]"
      by blast+
    from assms n c g have "\<exists>rest. calls (snd (load_tool import_module' env' x s'))
            = calls s' @ Call_interpolate_config x # rest"
      by (intro load_tool_retry) simp_all
    with c g k show ?thesis by auto
  qed
  from a b l show ?thesis by simp
qed

lemma sqlite_first_load:
  "load_tool raising_importer no_environ ''sqlite'' sqlite_manager =
     (Failed_to_load_tool (Exn Exception ''OperationalError'' ''unable to open database file''),
      sqlite_manager\<lparr>calls := [Call_interpolate_config ''sqlite'', Call_constructor ''sqlite'']\<rparr>)"
  by (simp add: load_tool_def sqlite_manager_def registry_defs TOOL_IMPLEMENTATIONS_def
      raising_importer_def pascal_sqlite raising_class_def no_environ_empty Let_def
      load_tool_except_def caught_by_except_Exception_def)

theorem load_tool_cached_witness:
  "is_tool_enabled (registry_config two_tool_manager) ''current_date''
   \<and> returned (fst (load_tool current_date_importer no_environ ''current_date'' two_tool_manager))
       = Inr (Some (Instance 0 [] CurrentDate_execute))
   \<and> load_tool raising_importer no_environ ''current_date''
        (snd (load_tool current_date_importer no_environ ''current_date'' two_tool_manager))
       = (From_cache (Instance 0 [] CurrentDate_execute),
          snd (load_tool current_date_importer no_environ ''current_date'' two_tool_manager))
   \<and> calls (snd (load_tool current_date_importer no_environ ''current_date'' two_tool_manager))
       = [Call_interpolate_config ''current_date'', Call_constructor ''current_date'']
   \<and> is_tool_enabled (registry_config sqlite_manager) ''sqlite''
   \<and> returned (fst (load_tool raising_importer no_environ ''sqlite'' sqlite_manager)) = Inr None
   \<and> tool_cache (snd (load_tool raising_importer no_environ ''sqlite'' sqlite_manager))
       = tool_cache sqlite_manager
   \<and> (\<exists>rest. calls (snd (load_tool raising_importer no_environ ''sqlite''
                          (snd (load_tool raising_importer no_environ ''sqlite'' sqlite_manager))))
          = calls (snd (load_tool raising_importer no_environ ''sqlite'' sqlite_manager))
              @ Call_interpolate_config ''sqlite'' # rest)"
proof -
  have e': "is_tool_enabled (registry_config sqlite_manager) ''sqlite''"
    by (simp add: sqlite_manager_def registry_defs)
  have r': "returned (fst (load_tool raising_importer no_environ ''sqlite'' sqlite_manager))
      = Inr None"
    by (simp add: sqlite_first_load returned_def)
  have e: "is_tool_enabled (registry_config two_tool_manager) ''current_date''"
    by (simp add: two_tool_manager_def registry_defs)
  have r: "returned (fst (load_tool current_date_importer no_environ ''current_date''
        two_tool_manager)) = Inr (Some (Instance 0 [] CurrentDate_execute))"
    by (simp add: load_current_date_two_tool returned_def)
  have c: "dict_get (tool_cache two_tool_manager) ''current_date'' = None"
    and k: "calls two_tool_manager = []"
    by (simp_all add: two_tool_manager_def dict_get_def)
  from load_tool_cached [OF e, of current_date_importer no_environ raising_importer no_environ]
    load_tool_cached [OF e', of raising_importer no_environ raising_importer no_environ]
    e r c k e' r'
  show ?thesis by simp
qed

text \<open>
  The claim as it was stated, for every enabled tool name, fails on an enabled tool whose
  constructor raises: the first call returns \<^verbatim>\<open>None\<close>, nothing is cached, and the
  second call is no cache hit: it interpolates and constructs again.
\<close>

theorem load_tool_cached_counterexample:
  "is_tool_enabled (registry_config sqlite_manager) ''sqlite''
   \<and> returned (fst (load_tool raising_importer no_environ ''sqlite'' sqlite_manager)) = Inr None
   \<and> fst (load_tool raising_importer no_environ ''sqlite''
            (snd (load_tool raising_importer no_environ ''sqlite'' sqlite_manager)))
       = Failed_to_load_tool (Exn Exception ''OperationalError'' ''unable to open database file'')
   \<and> calls (snd (load_tool raising_importer no_environ ''sqlite''
              (snd (load_tool raising_importer no_environ ''sqlite'' sqlite_manager))))
       = [Call_interpolate_config ''sqlite'', Call_constructor ''sqlite'',
          Call_interpolate_config ''sqlite'', Call_constructor ''sqlite'']
   \<and> tool_cache (snd (load_tool raising_importer no_environ ''sqlite''
              (snd (load_tool raising_importer no_environ ''sqlite'' sqlite_manager)))) = []"
proof -
  have e: "is_tool_enabled (registry_config sqlite_manager) ''sqlite''"
    by (simp add: sqlite_manager_def registry_defs)
  have s: "load_tool raising_importer no_environ ''sqlite''
        (sqlite_manager\<lparr>calls := [Call_interpolate_config ''sqlite'', Call_constructor ''sqlite'']\<rparr>)
     = (Failed_to_load_tool (Exn Exception ''OperationalError'' ''unable to open database file''),
        sqlite_manager\<lparr>calls := [Call_interpolate_config ''sqlite'', Call_constructor ''sqlite'',
           Call_interpolate_config ''sqlite'', Call_constructor ''sqlite'']\<rparr>)"
    by (simp add: load_tool_def sqlite_manager_def registry_defs TOOL_IMPLEMENTATIONS_def
      raising_importer_def pascal_sqlite raising_class_def no_environ_empty Let_def
      load_tool_except_def caught_by_except_Exception_def)
  have c: "tool_cache sqlite_manager = []" by (simp add: sqlite_manager_def)
  from e s c show ?thesis
    by (simp add: sqlite_first_load returned_def)
qed

section \<open>The result envelope of \<open>execute_tool\<close>\<close>

text \<open>
  Claim C2, as the source has it. For every tool name held in the manager's mapping and every
  arguments map that holds neither the key \<^verbatim>\<open>self\<close> nor the key \<^verbatim>\<open>tool_name\<close>:
  if \<^verbatim>\<open>tool.execute\<close> raises an exception of a class under \<^verbatim>\<open>Exception\<close>,
  \<^verbatim>\<open>execute_tool\<close> returns \<^verbatim>\<open>success\<close> false, \<^verbatim>\<open>data\<close> \<^verbatim>\<open>None\<close> and the
  text of the exception as \<^verbatim>\<open>error\<close>; if it returns a value, the result is
  \<^verbatim>\<open>success\<close> true with that value as \<^verbatim>\<open>data\<close> and no error; an exception that is
  not under \<^verbatim>\<open>Exception\<close> is not caught by the handler and leaves
  \<^verbatim>\<open>execute_tool\<close>. With an arguments map that holds one of the two keys, the call of
  \<^verbatim>\<open>execute_tool\<close> raises \<^verbatim>\<open>TypeError\<close> and the tool is not executed. The state
  of the manager is unchanged in each case.
\<close>

theorem execute_tool_envelope:
  assumes "tools_held s = Some ts" and "dict_get ts tool_name = Some tool"
  shows "(keyword_clash kwargs = [] \<longrightarrow>
       (\<forall>e. call_execute tool now kwargs = Inl e \<and> caught_by_except_Exception e \<longrightarrow>
            execute_tool tool_name kwargs now s
              = (Inr \<lparr>success = False, data = JNull, error = Some (exn_str e)\<rparr>, s))
       \<and> (\<forall>v. call_execute tool now kwargs = Inr v \<longrightarrow>
            execute_tool tool_name kwargs now s
              = (Inr \<lparr>success = True, data = v, error = None\<rparr>, s))
       \<and> (\<forall>e. call_execute tool now kwargs = Inl e \<and> \<not> caught_by_except_Exception e \<longrightarrow>
            execute_tool tool_name kwargs now s = (Inl e, s)))
    \<and> (keyword_clash kwargs \<noteq> [] \<longrightarrow>
         (\<exists>m. execute_tool tool_name kwargs now s = (Inl (TypeError m), s)))"
proof -
  from assms(2) have "dict_contains ts tool_name"
    by (simp add: dict_contains_iff)
  with assms have "keyword_clash kwargs = [] \<longrightarrow>
       (\<forall>e. call_execute tool now kwargs = Inl e \<and> caught_by_except_Exception e \<longrightarrow>
            execute_tool tool_name kwargs now s
              = (Inr \<lparr>success = False, data = JNull, error = Some (exn_str e)\<rparr>, s))
       \<and> (\<forall>v. call_execute tool now kwargs = Inr v \<longrightarrow>
            execute_tool tool_name kwargs now s
              = (Inr \<lparr>success = True, data = v, error = None\<rparr>, s))
       \<and> (\<forall>e. call_execute tool now kwargs = Inl e \<and> \<not> caught_by_except_Exception e \<longrightarrow>
            execute_tool tool_name kwargs now s = (Inl e, s))"
    by (simp add: execute_tool_def execute_tool_except_def)
  with execute_tool_clash [of kwargs tool_name now s] show ?thesis by blast
qed

theorem execute_tool_envelope_witness:
  "tools_held doubles_manager
     = Some [(''raises'', Instance 0 [] raising_execute),
             (''returns'', Instance 1 [] returning_execute),
             (''cancelled'', Instance 2 [] cancelled_execute)]
   \<and> keyword_clash [] = []
   \<and> execute_tool ''raises'' [] clock0 doubles_manager
       = (Inr \<lparr>success = False, data = JNull, error = Some ''boom''\<rparr>, doubles_manager)
   \<and> execute_tool ''returns'' [] clock0 doubles_manager
       = (Inr \<lparr>success = True, data = JInt 42, error = None\<rparr>, doubles_manager)
   \<and> execute_tool ''cancelled'' [] clock0 doubles_manager
       = (Inl (Exn BaseException ''CancelledError'' []), doubles_manager)
   \<and> keyword_clash [(''tool_name'', JStr ''x'')] \<noteq> []
   \<and> (\<exists>m. execute_tool ''returns'' [(''tool_name'', JStr ''x'')] clock0 doubles_manager
          = (Inl (TypeError m), doubles_manager))"
proof -
  have h: "tools_held doubles_manager
     = Some [(''raises'', Instance 0 [] raising_execute),
             (''returns'', Instance 1 [] returning_execute),
             (''cancelled'', Instance 2 [] cancelled_execute)]"
    by (simp add: doubles_manager_def)
  have g1: "dict_get [(''raises'', Instance 0 [] raising_execute),
             (''returns'', Instance 1 [] returning_execute),
             (''cancelled'', Instance 2 [] cancelled_execute)] ''raises''
      = Some (Instance 0 [] raising_execute)"
    and g2: "dict_get [(''raises'', Instance 0 [] raising_execute),
             (''returns'', Instance 1 [] returning_execute),
             (''cancelled'', Instance 2 [] cancelled_execute)] ''returns''
      = Some (Instance 1 [] returning_execute)"
    and g3: "dict_get [(''raises'', Instance 0 [] raising_execute),
             (''returns'', Instance 1 [] returning_execute),
             (''cancelled'', Instance 2 [] cancelled_execute)] ''cancelled''
      = Some (Instance 2 [] cancelled_execute)"
    by (simp_all add: dict_get_def)
  have k0: "keyword_clash [] = []"
    and k1: "keyword_clash [(''tool_name'', JStr ''x'')] \<noteq> []"
    by (simp_all add: keyword_clash_def dict_keys_def)
  from execute_tool_envelope [OF h g1, of "[]" clock0]
    execute_tool_envelope [OF h g2, of "[]" clock0]
    execute_tool_envelope [OF h g3, of "[]" clock0]
    execute_tool_envelope [OF h g2, of "[(''tool_name'', JStr ''x'')]" clock0] h k0 k1
  show ?thesis
    by (simp add: call_execute_def raising_execute_def returning_execute_def
        cancelled_execute_def caught_by_except_Exception_def)
qed

text \<open>
  The claim as it was stated, for any fault, fails on a held tool whose \<^verbatim>\<open>execute\<close>
  ends with \<^verbatim>\<open>asyncio.CancelledError\<close>: \<^verbatim>\<open>execute_tool\<close> returns no result and the
  exception reaches the caller.
\<close>

theorem execute_tool_envelope_counterexample:
  "tools_held doubles_manager
     = Some [(''raises'', Instance 0 [] raising_execute),
             (''returns'', Instance 1 [] returning_execute),
             (''cancelled'', Instance 2 [] cancelled_execute)]
   \<and> call_execute (Instance 2 [] cancelled_execute) clock0 []
       = Inl (Exn BaseException ''CancelledError'' [])
   \<and> fst (execute_tool ''cancelled'' [] clock0 doubles_manager)
       = Inl (Exn BaseException ''CancelledError'' [])"
  by (simp add: doubles_manager_def execute_tool_def keyword_clash_def dict_contains_def
      dict_keys_def dict_get_def call_execute_def cancelled_execute_def execute_tool_except_def
      caught_by_except_Exception_def)

section \<open>End to end: the current date\<close>

lemma init_current_date: "ToolManager_init current_date_document = Inr current_date_manager"
  by (simp add: ToolManager_init_def current_date_document_def current_date_manager_def
      registry_defs)

lemma load_all_current_date:
  "load_all_tools current_date_manager = [(''current_date'', Coroutine ''current_date'')]"
  by (simp add: load_all_tools_def current_date_manager_def registry_defs truthy_def)

text \<open>
  Claim C1 expects that, with the document declaring \<^verbatim>\<open>current_date\<close> enabled with an
  empty configuration, \<^verbatim>\<open>execute_tool("current_date", format="date_only")\<close> returns
  \<^verbatim>\<open>success\<close> true with a \<^verbatim>\<open>date\<close> of the form YYYY-MM-DD and no \<^verbatim>\<open>time\<close>.
  The source does not: \<^verbatim>\<open>load_all_tools\<close> calls the coroutine function
  \<^verbatim>\<open>load_tool\<close> without awaiting it, so the mapping that \<^verbatim>\<open>initialize\<close> stores
  holds a coroutine object under \<^verbatim>\<open>current_date\<close>, no instance is constructed or cached,
  and the attribute access \<^verbatim>\<open>tool.execute\<close> raises \<^verbatim>\<open>AttributeError\<close>, which the
  handler turns into a failure. The evaluation holds at every clock, with the manager
  initialized explicitly or by the first execution.
\<close>

theorem current_date_not_awaited:
  "ToolManager_init current_date_document = Inr current_date_manager
   \<and> tools_held (initialize current_date_manager)
       = Some [(''current_date'', Coroutine ''current_date'')]
   \<and> tool_cache (initialize current_date_manager) = []
   \<and> fst (execute_tool ''current_date'' [(''format'', JStr ''date_only'')] now
            (initialize current_date_manager))
       = Inr \<lparr>success = False, data = JNull,
              error = Some (quoted ''coroutine'' @ '' object has no attribute ''
                        @ quoted ''execute'')\<rparr>
   \<and> fst (execute_tool ''current_date'' [(''format'', JStr ''date_only'')] now
            current_date_manager)
       = Inr \<lparr>success = False, data = JNull,
              error = Some (quoted ''coroutine'' @ '' object has no attribute ''
                        @ quoted ''execute'')\<rparr>"
proof -
  have i: "tools_held (initialize current_date_manager)
       = Some [(''current_date'', Coroutine ''current_date'')]"
    by (simp add: initialize_def load_all_current_date)
  have c: "tool_cache (initialize current_date_manager) = []"
    by (simp add: initialize_def current_date_manager_def)
  have t: "tools_held current_date_manager = None"
    by (simp add: current_date_manager_def)
  have e1: "fst (execute_tool ''current_date'' [(''format'', JStr ''date_only'')] now
            (initialize current_date_manager))
       = Inr \<lparr>success = False, data = JNull,
              error = Some (quoted ''coroutine'' @ '' object has no attribute ''
                        @ quoted ''execute'')\<rparr>"
    using i
    by (simp add: execute_tool_def keyword_clash_def dict_contains_def dict_keys_def
        dict_get_def call_execute_def execute_tool_except_def caught_by_except_Exception_def
        AttributeError_def)
  have e2: "fst (execute_tool ''current_date'' [(''format'', JStr ''date_only'')] now
            current_date_manager)
       = Inr \<lparr>success = False, data = JNull,
              error = Some (quoted ''coroutine'' @ '' object has no attribute ''
                        @ quoted ''execute'')\<rparr>"
    using i t
    by (simp add: execute_tool_def keyword_clash_def dict_contains_def dict_keys_def
        dict_get_def call_execute_def execute_tool_except_def caught_by_except_Exception_def
        AttributeError_def)
  from init_current_date i c e1 e2 show ?thesis by simp
qed

subsection \<open>What the awaited load and the tool itself give\<close>

text \<open>
  The body of \<^verbatim>\<open>load_tool\<close>, when it runs, constructs the \<^verbatim>\<open>CurrentDate\<close>
  instance; and the tool, asked for \<^verbatim>\<open>date_only\<close>, returns the date in the form
  YYYY-MM-DD and no \<^verbatim>\<open>time\<close>. A manager holding that instance returns it as a success.
\<close>

lemma awaited_load_tool_current_date:
  "fst (load_tool current_date_importer env ''current_date'' current_date_manager)
     = Loaded (Instance 0 [] CurrentDate_execute)"
  by (simp add: load_tool_def current_date_manager_def registry_defs TOOL_IMPLEMENTATIONS_def
      current_date_importer_def pascal_current_date CurrentDate_def interpolate_config_def Let_def)

lemma CurrentDate_date_only:
  "CurrentDate_execute now [(''format'', JStr ''date_only'')] =
     Inr (JDict [(''timestamp'', JStr (isoformat now)),
                 (''unix_timestamp'', JInt (posix_timestamp now)),
                 (''date'', JStr (strftime_date now)),
                 (''date_readable'', JStr (strftime_readable now))])"
  by (simp add: CurrentDate_execute_def dict_keys_def dict_get_def)

lemma execute_tool_on_instance:
  "fst (execute_tool ''current_date'' [(''format'', JStr ''date_only'')] now
     (current_date_manager
        \<lparr>tools_held := Some [(''current_date'', Instance 0 [] CurrentDate_execute)]\<rparr>))
   = Inr \<lparr>success = True,
          data = JDict [(''timestamp'', JStr (isoformat now)),
                        (''unix_timestamp'', JInt (posix_timestamp now)),
                        (''date'', JStr (strftime_date now)),
                        (''date_readable'', JStr (strftime_readable now))],
          error = None\<rparr>"
  by (simp add: execute_tool_def keyword_clash_def dict_contains_def dict_keys_def dict_get_def
      call_execute_def CurrentDate_execute_def)

lemma digits_table:
  "list_all (\<lambda>k. char_of (48 + k) \<in> set ''0123456789'') [0..<10]"
  by code_simp

lemma digit_is_digit: "digit n \<in> set ''0123456789''"
proof -
  have "n mod 10 \<in> set [0..<10]" by simp
  with digits_table show ?thesis
    unfolding digit_def list_all_iff by blast
qed

lemma strftime_date_shape:
  "\<exists>y1 y2 y3 y4 m1 m2 d1 d2.
     strftime_date now = [y1, y2, y3, y4, CHR ''-'', m1, m2, CHR ''-'', d1, d2]
     \<and> set [y1, y2, y3, y4, m1, m2, d1, d2] \<subseteq> set ''0123456789''"
proof -
  have "set [digit a, digit b, digit c, digit d, digit e, digit f, digit g, digit h]
      \<subseteq> set ''0123456789''" for a b c d e f g h
    using digit_is_digit [of a] digit_is_digit [of b] digit_is_digit [of c] digit_is_digit [of d]
      digit_is_digit [of e] digit_is_digit [of f] digit_is_digit [of g] digit_is_digit [of h]
    by (simp only: list.set insert_subset empty_subsetI simp_thms)
  then show ?thesis
    unfolding strftime_date_def pad4_def pad2_def by (intro exI conjI) (simp, blast)
qed

lemma strftime_date_example: "strftime_date clock0 = ''2024-03-07''"
  by code_simp

end
